theory Spec2Isabelle
  imports Complex_Main "HOL-Library.Multiset" "HOL-Library.AList"
begin

section \<open>Numbers, points and sectors\<close>

text \<open>
  JavaScript numbers are modelled as exact rationals: a coordinate, a measure and a
  gradient stop is a \<open>rat\<close>, and \<open>Math.floor\<close> and \<open>Math.ceil\<close> are \<open>floor\<close> and
  \<open>ceiling\<close> into \<open>int\<close>. Rounding of IEEE doubles is not part of the model.
\<close>

text \<open>
  Modelled from the spec: the constructor \<open>MeasuredLocation(latitude, longitude, measure)\<close>
  of \<open>geom/MeasuredLocation\<close>, which is not among the sources. It stores its three
  arguments (the weighted point of the data model).
\<close>

record MeasuredLocation =
  latitude :: rat
  longitude :: rat
  measure' :: rat

text \<open>
  Modelled from the spec: the constructor \<open>Sector(minLatitude, maxLatitude, minLongitude,
  maxLongitude)\<close> of \<open>geom/Sector\<close>, which is not among the sources: an axis-aligned
  bounding box that stores its four bounds.
\<close>

record Sector =
  minLatitude :: rat
  maxLatitude :: rat
  minLongitude :: rat
  maxLongitude :: rat

text \<open>
  Modelled from the spec: \<open>Sector.prototype.containsLocation\<close>, the point-containment
  test of the bounding box, which is not among the sources. The bounds are inclusive:
  the repository's test expects the three points on the border of
  \<open>Sector(20, 30, 150, 160)\<close> to be returned.
\<close>

definition containsLocation :: "Sector \<Rightarrow> rat \<Rightarrow> rat \<Rightarrow> bool" where
  "containsLocation sector lat lon \<longleftrightarrow>
     minLatitude sector \<le> lat \<and> lat \<le> maxLatitude sector \<and>
     minLongitude sector \<le> lon \<and> lon \<le> maxLongitude sector"

datatype error = ArgumentError | TypeError

section \<open>GeographicalFilter\<close>

subsection \<open>The grid and its construction\<close>

text \<open>
  The grid is the nested object \<open>data[lat][lon]\<close>: a property that was never assigned is
  \<open>None\<close> (JavaScript's \<open>undefined\<close>), and reading a property of \<open>undefined\<close> or calling
  a method on it throws a \<open>TypeError\<close>.
\<close>

type_synonym grid_row = "int \<rightharpoonup> MeasuredLocation list"
type_synonym grid_data = "int \<rightharpoonup> grid_row"

definition emptyRow :: grid_row where
  "emptyRow = fold (\<lambda>lon row. row(lon \<mapsto> [])) [-180..180] Map.empty"

definition emptyGrid :: grid_data where
  "emptyGrid = fold (\<lambda>lat data. data(lat \<mapsto> emptyRow)) [-90..90] Map.empty"

text \<open>
  The body of the \<open>forEach\<close> of \<open>createGrid\<close>:
  \<open>data[Math.floor(measured.latitude)][Math.floor(measured.longitude)].push(measured)\<close>.
\<close>

definition pushMeasured :: "MeasuredLocation \<Rightarrow> grid_data \<Rightarrow> error + grid_data" where
  "pushMeasured measured data =
     (case data \<lfloor>latitude measured\<rfloor> of
        None \<Rightarrow> Inl TypeError
      | Some row \<Rightarrow>
          (case row \<lfloor>longitude measured\<rfloor> of
             None \<Rightarrow> Inl TypeError
           | Some cell \<Rightarrow>
               Inr (data(\<lfloor>latitude measured\<rfloor> \<mapsto>
                      row(\<lfloor>longitude measured\<rfloor> \<mapsto> cell @ [measured])))))"

fun pushAll :: "MeasuredLocation list \<Rightarrow> grid_data \<Rightarrow> error + grid_data" where
  "pushAll [] data = Inr data"
| "pushAll (measured # rest) data =
     (case pushMeasured measured data of
        Inl e \<Rightarrow> Inl e
      | Inr data' \<Rightarrow> pushAll rest data')"

definition createGrid :: "MeasuredLocation list \<Rightarrow> error + grid_data" where
  "createGrid measuredLocations = pushAll measuredLocations emptyGrid"

text \<open>
  The filter object: \<open>_data\<close> is the grid or the caller's array, \<open>_dataStructure\<close> the
  mode string. The constructor throws the \<open>ArgumentError\<close> before anything else.
\<close>

datatype filter_data = GridData grid_data | ArrayData "MeasuredLocation list"

record geographical_filter =
  data' :: filter_data
  dataStructure' :: string

definition GeographicalFilter ::
  "MeasuredLocation list \<Rightarrow> string \<Rightarrow> error + geographical_filter" where
  "GeographicalFilter data dataStructure =
     (if dataStructure \<noteq> ''GRID'' \<and> dataStructure \<noteq> ''ARRAY'' then Inl ArgumentError
      else if dataStructure = ''GRID'' then
        (case createGrid data of
           Inl e \<Rightarrow> Inl e
         | Inr g \<Rightarrow> Inr \<lparr>data' = GridData g, dataStructure' = dataStructure\<rparr>)
      else Inr \<lparr>data' = ArrayData data, dataStructure' = dataStructure\<rparr>)"

subsection \<open>Normalising the query sector\<close>

text \<open>
  \<open>grid\<close> and \<open>array\<close> start with the same statements: the four bounds are floored,
  and the two wrap amounts are computed from the floored longitudes.
\<close>

definition extraLongitudeBefore :: "Sector \<Rightarrow> int" where
  "extraLongitudeBefore sector =
     (if \<lfloor>minLongitude sector\<rfloor> \<le> -180 then \<bar>\<lfloor>minLongitude sector\<rfloor> - (-180)\<bar> else 0)"

definition extraLongitudeAfter :: "Sector \<Rightarrow> int" where
  "extraLongitudeAfter sector =
     (if \<lfloor>maxLongitude sector\<rfloor> \<ge> 180 then \<bar>\<lfloor>maxLongitude sector\<rfloor> - 180\<bar> else 0)"

text \<open>The bounds of the cell scan of \<open>grid\<close>, after its four clamping statements.\<close>

definition gridMinLatitude :: "Sector \<Rightarrow> int" where
  "gridMinLatitude sector = (if \<lfloor>minLatitude sector\<rfloor> \<le> -90 then -90 else \<lfloor>minLatitude sector\<rfloor>)"

definition gridMaxLatitude :: "Sector \<Rightarrow> int" where
  "gridMaxLatitude sector = (if \<lfloor>maxLatitude sector\<rfloor> \<ge> 90 then 90 else \<lfloor>maxLatitude sector\<rfloor>)"

definition gridMinLongitude :: "Sector \<Rightarrow> int" where
  "gridMinLongitude sector =
     (if \<lfloor>minLongitude sector\<rfloor> \<le> -180 then -180 else \<lfloor>minLongitude sector\<rfloor>)"

definition gridMaxLongitude :: "Sector \<Rightarrow> int" where
  "gridMaxLongitude sector =
     (if \<lfloor>maxLongitude sector\<rfloor> \<ge> 180 then 180 else \<lfloor>maxLongitude sector\<rfloor>)"

text \<open>
  The auxiliary sectors \<open>beforeSector\<close> and \<open>afterSector\<close>, built from the latitude
  bounds the caller has at that point (clamped in \<open>grid\<close>, only floored in \<open>array\<close>).
\<close>

definition beforeSector :: "int \<Rightarrow> int \<Rightarrow> Sector \<Rightarrow> Sector" where
  "beforeSector minLat maxLat sector =
     \<lparr>minLatitude = of_int minLat, maxLatitude = of_int maxLat,
      minLongitude = of_int (180 - extraLongitudeBefore sector), maxLongitude = 180\<rparr>"

definition afterSector :: "int \<Rightarrow> int \<Rightarrow> Sector \<Rightarrow> Sector" where
  "afterSector minLat maxLat sector =
     \<lparr>minLatitude = of_int minLat, maxLatitude = of_int maxLat,
      minLongitude = -180, maxLongitude = of_int (-180 + extraLongitudeAfter sector)\<rparr>"

text \<open>
  What the three \<open>forEach\<close> callbacks push for one element: the element itself in the
  primary pass, a newly constructed \<open>MeasuredLocation\<close> in the two wrap passes.
\<close>

definition pushContained :: "Sector \<Rightarrow> MeasuredLocation \<Rightarrow> MeasuredLocation list" where
  "pushContained sector element =
     (if containsLocation sector (latitude element) (longitude element) then [element] else [])"

definition pushShifted :: "Sector \<Rightarrow> rat \<Rightarrow> MeasuredLocation \<Rightarrow> MeasuredLocation list" where
  "pushShifted sector shift element =
     (if containsLocation sector (latitude element) (longitude element)
      then [\<lparr>latitude = latitude element, longitude = shift + longitude element,
             measure' = measure' element\<rparr>]
      else [])"

subsection \<open>The query on the grid\<close>

text \<open>
  The nested loops \<open>for (lat = ...; lat <= ...; lat++) for (lon = ...; lon <= ...; lon++)
  data[lat][lon].forEach(visit)\<close>, over the integer ranges \<open>[lo..hi]\<close>. \<open>data[lat]\<close> is
  read in the inner body only; a missing row or cell throws.
\<close>

fun scanRow ::
  "grid_data \<Rightarrow> (MeasuredLocation \<Rightarrow> MeasuredLocation list) \<Rightarrow> int \<Rightarrow> int list \<Rightarrow>
   error + MeasuredLocation list" where
  "scanRow data visit lat [] = Inr []"
| "scanRow data visit lat (lon # lons) =
     (case data lat of
        None \<Rightarrow> Inl TypeError
      | Some row \<Rightarrow>
          (case row lon of
             None \<Rightarrow> Inl TypeError
           | Some cell \<Rightarrow>
               (case scanRow data visit lat lons of
                  Inl e \<Rightarrow> Inl e
                | Inr pushed \<Rightarrow> Inr (concat (map visit cell) @ pushed))))"

fun scanRows ::
  "grid_data \<Rightarrow> (MeasuredLocation \<Rightarrow> MeasuredLocation list) \<Rightarrow> int list \<Rightarrow> int list \<Rightarrow>
   error + MeasuredLocation list" where
  "scanRows data visit [] lons = Inr []"
| "scanRows data visit (lat # lats) lons =
     (case scanRow data visit lat lons of
        Inl e \<Rightarrow> Inl e
      | Inr pushed \<Rightarrow>
          (case scanRows data visit lats lons of
             Inl e \<Rightarrow> Inl e
           | Inr pushed' \<Rightarrow> Inr (pushed @ pushed')))"

definition gridPrimary :: "grid_data \<Rightarrow> Sector \<Rightarrow> error + MeasuredLocation list" where
  "gridPrimary data sector =
     scanRows data (pushContained sector)
       [gridMinLatitude sector..gridMaxLatitude sector]
       [gridMinLongitude sector..gridMaxLongitude sector]"

definition gridBefore :: "grid_data \<Rightarrow> Sector \<Rightarrow> error + MeasuredLocation list" where
  "gridBefore data sector =
     (if extraLongitudeBefore sector \<noteq> 0 then
        scanRows data
          (pushShifted (beforeSector (gridMinLatitude sector) (gridMaxLatitude sector) sector) (-360))
          [gridMinLatitude sector..gridMaxLatitude sector]
          [180 - extraLongitudeBefore sector..180]
      else Inr [])"

definition gridAfter :: "grid_data \<Rightarrow> Sector \<Rightarrow> error + MeasuredLocation list" where
  "gridAfter data sector =
     (if extraLongitudeAfter sector \<noteq> 0 then
        scanRows data
          (pushShifted (afterSector (gridMinLatitude sector) (gridMaxLatitude sector) sector) 360)
          [gridMinLatitude sector..gridMaxLatitude sector]
          [-180..-180 + extraLongitudeAfter sector]
      else Inr [])"

definition grid :: "grid_data \<Rightarrow> Sector \<Rightarrow> error + MeasuredLocation list" where
  "grid data sector =
     (case gridPrimary data sector of
        Inl e \<Rightarrow> Inl e
      | Inr primary \<Rightarrow>
          (case gridBefore data sector of
             Inl e \<Rightarrow> Inl e
           | Inr before \<Rightarrow>
               (case gridAfter data sector of
                  Inl e \<Rightarrow> Inl e
                | Inr after \<Rightarrow> Inr (primary @ before @ after))))"

subsection \<open>The query on the array\<close>

definition arrayPrimary :: "MeasuredLocation list \<Rightarrow> Sector \<Rightarrow> MeasuredLocation list" where
  "arrayPrimary data sector = concat (map (pushContained sector) data)"

definition arrayBefore :: "MeasuredLocation list \<Rightarrow> Sector \<Rightarrow> MeasuredLocation list" where
  "arrayBefore data sector =
     (if extraLongitudeBefore sector \<noteq> 0 then
        concat (map (pushShifted
          (beforeSector \<lfloor>minLatitude sector\<rfloor> \<lfloor>maxLatitude sector\<rfloor> sector) (-360)) data)
      else [])"

definition arrayAfter :: "MeasuredLocation list \<Rightarrow> Sector \<Rightarrow> MeasuredLocation list" where
  "arrayAfter data sector =
     (if extraLongitudeAfter sector \<noteq> 0 then
        concat (map (pushShifted
          (afterSector \<lfloor>minLatitude sector\<rfloor> \<lfloor>maxLatitude sector\<rfloor> sector) 360) data)
      else [])"

definition array :: "MeasuredLocation list \<Rightarrow> Sector \<Rightarrow> MeasuredLocation list" where
  "array data sector = arrayPrimary data sector @ arrayBefore data sector @ arrayAfter data sector"

subsection \<open>Sorting the result\<close>

text \<open>
  \<open>Array.prototype.sort(comparefn)\<close> is the language's, not the repository's. ECMAScript
  fixes its result as follows: the array is permuted, and if \<open>comparefn\<close> is a consistent
  comparison function for the elements (the five conditions below) then no element
  stands before one that compares smaller. For a comparison function that is not
  consistent the order is implementation-defined. \<open>sortOutcome comparefn xs ys\<close> holds
  when \<open>ys\<close> is a content the array \<open>xs\<close> may have after the call.
\<close>

definition consistentComparator :: "('a \<Rightarrow> 'a \<Rightarrow> int) \<Rightarrow> 'a list \<Rightarrow> bool" where
  "consistentComparator comparefn xs \<longleftrightarrow>
     (\<forall>a\<in>set xs. comparefn a a = 0) \<and>
     (\<forall>a\<in>set xs. \<forall>b\<in>set xs. comparefn a b = 0 \<longrightarrow> comparefn b a = 0) \<and>
     (\<forall>a\<in>set xs. \<forall>b\<in>set xs. \<forall>c\<in>set xs.
        comparefn a b = 0 \<and> comparefn b c = 0 \<longrightarrow> comparefn a c = 0) \<and>
     (\<forall>a\<in>set xs. \<forall>b\<in>set xs. \<forall>c\<in>set xs.
        comparefn a b < 0 \<and> comparefn b c < 0 \<longrightarrow> comparefn a c < 0) \<and>
     (\<forall>a\<in>set xs. \<forall>b\<in>set xs. \<forall>c\<in>set xs.
        comparefn a b > 0 \<and> comparefn b c > 0 \<longrightarrow> comparefn a c > 0)"

definition sortOutcome :: "('a \<Rightarrow> 'a \<Rightarrow> int) \<Rightarrow> 'a list \<Rightarrow> 'a list \<Rightarrow> bool" where
  "sortOutcome comparefn xs ys \<longleftrightarrow>
     mset ys = mset xs \<and>
     (consistentComparator comparefn xs \<longrightarrow> sorted_wrt (\<lambda>a b. \<not> comparefn b a < 0) ys)"

text \<open>
  The comparison function of \<open>filter\<close>, branch by branch. Its fourth test compares
  \<open>elm2.longitude\<close> with itself, as the source does.
\<close>

definition compareLocations :: "MeasuredLocation \<Rightarrow> MeasuredLocation \<Rightarrow> int" where
  "compareLocations elm1 elm2 =
     (if latitude elm1 > latitude elm2 then 1
      else if latitude elm1 < latitude elm2 then -1
      else if longitude elm1 > longitude elm2 then 1
      else if longitude elm2 < longitude elm2 then -1
      else 0)"

text \<open>
  \<open>filter\<close> dispatches on \<open>_dataStructure\<close> and sorts what the query pushed. The
  constructor only builds a grid with \<open>''GRID''\<close> and an array with \<open>''ARRAY''\<close>; in any
  other state \<open>result\<close> is not an array of the query and the model throws.
  \<open>filter_returns this sector out\<close> holds when \<open>out\<close> is a possible outcome of
  \<open>this.filter(sector)\<close>: the error thrown, or the sorted array returned.
\<close>

definition queryResult :: "geographical_filter \<Rightarrow> Sector \<Rightarrow> error + MeasuredLocation list" where
  "queryResult this sector =
     (if dataStructure' this = ''GRID'' then
        (case data' this of GridData g \<Rightarrow> grid g sector | ArrayData a \<Rightarrow> Inl TypeError)
      else if dataStructure' this = ''ARRAY'' then
        (case data' this of ArrayData a \<Rightarrow> Inr (array a sector) | GridData g \<Rightarrow> Inl TypeError)
      else Inl TypeError)"

definition filter_returns ::
  "geographical_filter \<Rightarrow> Sector \<Rightarrow> error + MeasuredLocation list \<Rightarrow> bool" where
  "filter_returns this sector out \<longleftrightarrow>
     (case queryResult this sector of
        Inl e \<Rightarrow> out = Inl e
      | Inr result \<Rightarrow>
          (case out of
             Inl e \<Rightarrow> False
           | Inr sorted_result \<Rightarrow> sortOutcome compareLocations result sorted_result))"

section \<open>HeatMapLayer\<close>

text \<open>
  Modelled from the spec: the enumeration \<open>IntervalType\<close> with its two members
  \<open>CONTINUOUS\<close> and \<open>QUANTILES\<close>, which is not among the sources. The setter stores
  whatever it is given, so a third constructor stands for every other value.
\<close>

datatype IntervalType = CONTINUOUS | QUANTILES | OtherIntervalType

text \<open>
  The gradient is a JavaScript object keyed by numbers: an assignment to an existing key
  replaces its colour in place, an assignment to a new key appends it, which is what
  \<open>AList.update\<close> does on an association list. A key is a number or \<open>NaN\<close>.
\<close>

datatype stop = Stop rat | NaN

type_synonym gradient = "(stop \<times> string) list"

datatype radius_option = Radius rat | RadiusFunction "Sector \<Rightarrow> rat \<Rightarrow> rat \<Rightarrow> rat"

record HeatMapLayer =
  tileWidth :: rat
  tileHeight :: rat
  filter' :: geographical_filter
  intervalType' :: IntervalType
  scale' :: "string list"
  radius' :: radius_option
  blur' :: rat
  incrementPerIntensity' :: rat
  gradient' :: gradient

subsection \<open>setGradient\<close>

text \<open>
  \<open>scale.forEach(function (color, index) { gradient[index / scale.length] = color; })\<close>,
  which the CONTINUOUS branch and the else branch of QUANTILES both run.
\<close>

definition continuousStops :: "string list \<Rightarrow> gradient \<Rightarrow> gradient" where
  "continuousStops scale gradient =
     fold (\<lambda>(index, color). AList.update (Stop (of_nat index / of_nat (length scale))) color)
       (enumerate 0 scale) gradient"

text \<open>The comparison function of the sort in \<open>setGradient\<close>.\<close>

definition compareMeasures :: "MeasuredLocation \<Rightarrow> MeasuredLocation \<Rightarrow> int" where
  "compareMeasures item1 item2 =
     (if measure' item1 < measure' item2 then -1
      else if measure' item1 > measure' item2 then 1
      else 0)"

text \<open>
  \<open>data[...].intensity / max\<close>: a \<open>MeasuredLocation\<close> has no property \<open>intensity\<close>, the
  read gives \<open>undefined\<close>, and \<open>undefined\<close> divided by a number is \<open>NaN\<close>.
\<close>

definition pointInScale :: "MeasuredLocation \<Rightarrow> rat \<Rightarrow> stop" where
  "pointInScale element max_measure = NaN"

text \<open>
  The \<open>forEach\<close> of the branch \<open>data.length >= scale.length\<close>. Reading \<open>.intensity\<close> of an
  index outside the array throws.
\<close>

fun quantileStops ::
  "string list \<Rightarrow> MeasuredLocation list \<Rightarrow> rat \<Rightarrow> (nat \<times> string) list \<Rightarrow> gradient \<Rightarrow>
   error + gradient" where
  "quantileStops scale data max_measure [] gradient = Inr gradient"
| "quantileStops scale data max_measure ((index, color) # rest) gradient =
     (let fractionDecidingTheScale = (of_nat index / of_nat (length scale) :: rat);
          i = \<lfloor>fractionDecidingTheScale * of_nat (length data)\<rfloor>
      in if 0 \<le> i \<and> i < int (length data)
         then quantileStops scale data max_measure rest
                (AList.update (pointInScale (data ! nat i) max_measure) color gradient)
         else Inl TypeError)"

text \<open>
  The QUANTILES branch after the sort: \<open>data[data.length - 1].measure\<close> throws on the
  empty array, before the lengths are compared.
\<close>

definition quantilesGradient :: "string list \<Rightarrow> MeasuredLocation list \<Rightarrow> error + gradient" where
  "quantilesGradient scale data =
     (if data = [] then Inl TypeError
      else
        (let max_measure = measure' (last data)
         in if length data \<ge> length scale
            then quantileStops scale data max_measure (enumerate 0 scale) []
            else Inr (continuousStops scale [])))"

text \<open>
  \<open>setGradient_returns this data out\<close> holds when \<open>out\<close> is a possible outcome of
  \<open>this.setGradient(data)\<close>: its first component is the caller's array after the call
  (\<open>None\<close> when the call passed no array), its second the error thrown or the layer with
  its new gradient. \<open>data.sort\<close> on \<open>undefined\<close> throws. In ARRAY mode the filter of the
  layer holds the same array object; the record keeps the filter's content as it was
  built, and nothing below reads the filter after a call of \<open>setGradient\<close>.
\<close>

definition setGradient_returns ::
  "HeatMapLayer \<Rightarrow> MeasuredLocation list option \<Rightarrow>
   MeasuredLocation list option \<times> (error + HeatMapLayer) \<Rightarrow> bool" where
  "setGradient_returns this data out \<longleftrightarrow>
     (if intervalType' this = CONTINUOUS then
        out = (data, Inr (this\<lparr>gradient' := continuousStops (scale' this) []\<rparr>))
      else if intervalType' this = QUANTILES then
        (case data of
           None \<Rightarrow> out = (None, Inl TypeError)
         | Some array_before \<Rightarrow>
             (case fst out of
                None \<Rightarrow> False
              | Some array_after \<Rightarrow>
                  sortOutcome compareMeasures array_before array_after \<and>
                  snd out =
                    (case quantilesGradient (scale' this) array_after of
                       Inl e \<Rightarrow> Inl e
                     | Inr g \<Rightarrow> Inr (this\<lparr>gradient' := g\<rparr>))))
      else out = (data, Inr (this\<lparr>gradient' := []\<rparr>)))"

subsection \<open>The extended sector and the canvas of a tile\<close>

record extended =
  sector' :: Sector
  extensionFactor :: rat

definition calculateExtendedSector :: "Sector \<Rightarrow> extended" where
  "calculateExtendedSector tile_sector =
     (let extension = (1 :: rat);
          latitudeChange = (maxLatitude tile_sector - minLatitude tile_sector) * extension;
          longitudeChange = (maxLongitude tile_sector - minLongitude tile_sector) * extension
      in \<lparr>sector' =
            \<lparr>minLatitude = minLatitude tile_sector - latitudeChange,
             maxLatitude = maxLatitude tile_sector + latitudeChange,
             minLongitude = minLongitude tile_sector - longitudeChange,
             maxLongitude = maxLongitude tile_sector + longitudeChange\<rparr>,
          extensionFactor = extension\<rparr>)"

definition calculateRadius :: "HeatMapLayer \<Rightarrow> Sector \<Rightarrow> rat" where
  "calculateRadius this tile_sector =
     (case radius' this of
        Radius r \<Rightarrow> r
      | RadiusFunction f \<Rightarrow> f tile_sector (tileWidth this) (tileHeight this))"

text \<open>
  The options object that \<open>retrieveTileImage\<close> hands to \<open>createHeatMapTile\<close> for a tile it
  renders.
\<close>

record tile_options =
  options_sector :: Sector
  options_width :: rat
  options_height :: rat
  options_radius :: rat
  options_blur :: rat
  options_intensityGradient :: gradient
  options_incrementPerIntensity :: rat

definition createHeatMapTile_options :: "HeatMapLayer \<Rightarrow> Sector \<Rightarrow> tile_options" where
  "createHeatMapTile_options this tile_sector =
     (let extended = calculateExtendedSector tile_sector;
          extendedWidth = \<lceil>extensionFactor extended * tileWidth this\<rceil>;
          extendedHeight = \<lceil>extensionFactor extended * tileHeight this\<rceil>
      in \<lparr>options_sector = sector' extended,
          options_width = tileWidth this + 2 * of_int extendedWidth,
          options_height = tileHeight this + 2 * of_int extendedHeight,
          options_radius = calculateRadius this tile_sector,
          options_blur = blur' this,
          options_intensityGradient = gradient' this,
          options_incrementPerIntensity = incrementPerIntensity' this\<rparr>)"

section \<open>Notions used in the statements\<close>

text \<open>A point whose cell \<open>(floor latitude, floor longitude)\<close> the grid has.\<close>

definition inGrid :: "MeasuredLocation \<Rightarrow> bool" where
  "inGrid m \<longleftrightarrow> -90 \<le> \<lfloor>latitude m\<rfloor> \<and> \<lfloor>latitude m\<rfloor> \<le> 90 \<and>
     -180 \<le> \<lfloor>longitude m\<rfloor> \<and> \<lfloor>longitude m\<rfloor> \<le> 180"

definition latInGrid :: "int \<Rightarrow> bool" where
  "latInGrid lat \<longleftrightarrow> -90 \<le> lat \<and> lat \<le> 90"

definition lonInGrid :: "int \<Rightarrow> bool" where
  "lonInGrid lon \<longleftrightarrow> -180 \<le> lon \<and> lon \<le> 180"

text \<open>The points of a list that fall into one cell, in the order of the list.\<close>

definition cellOf :: "MeasuredLocation list \<Rightarrow> int \<Rightarrow> int \<Rightarrow> MeasuredLocation list" where
  "cellOf ms lat lon = [m \<leftarrow> ms. \<lfloor>latitude m\<rfloor> = lat \<and> \<lfloor>longitude m\<rfloor> = lon]"

text \<open>The grid that holds exactly the points of a list: what \<open>createGrid\<close> is shown to build.\<close>

definition gridOfPoints :: "MeasuredLocation list \<Rightarrow> grid_data" where
  "gridOfPoints ms = (\<lambda>lat. if -90 \<le> lat \<and> lat \<le> 90
     then Some (\<lambda>lon. if -180 \<le> lon \<and> lon \<le> 180 then Some (cellOf ms lat lon) else None)
     else None)"

text \<open>The contents of the cells of a scan, in the order in which the loops visit them.\<close>

definition cellsInOrder ::
  "MeasuredLocation list \<Rightarrow> int list \<Rightarrow> int list \<Rightarrow> MeasuredLocation list" where
  "cellsInOrder ms lats lons = concat (map (\<lambda>lat. concat (map (cellOf ms lat) lons)) lats)"

text \<open>A list of points that is ordered by cell: by floored latitude, then floored longitude.\<close>

definition cellOrdered :: "MeasuredLocation list \<Rightarrow> bool" where
  "cellOrdered ms \<longleftrightarrow>
     sorted_wrt (\<lambda>p q. \<lfloor>latitude p\<rfloor> < \<lfloor>latitude q\<rfloor> \<or>
        (\<lfloor>latitude p\<rfloor> = \<lfloor>latitude q\<rfloor> \<and> \<lfloor>longitude p\<rfloor> \<le> \<lfloor>longitude q\<rfloor>)) ms"

text \<open>A point is stored in a grid when some cell holds it.\<close>

definition storedIn :: "grid_data \<Rightarrow> MeasuredLocation \<Rightarrow> bool" where
  "storedIn data element \<longleftrightarrow>
     (\<exists>lat lon row cell. data lat = Some row \<and> row lon = Some cell \<and> element \<in> set cell)"

text \<open>The order the documentation of \<open>filter\<close> promises: by latitude, then by longitude.\<close>

definition sortedByLatitudeThenLongitude :: "MeasuredLocation list \<Rightarrow> bool" where
  "sortedByLatitudeThenLongitude ms \<longleftrightarrow>
     sorted_wrt (\<lambda>p q. latitude p < latitude q \<or>
        (latitude p = latitude q \<and> longitude p \<le> longitude q)) ms"

text \<open>The reference points of the repository's test, in its order.\<close>

definition locationsToUseForTest :: "MeasuredLocation list" where
  "locationsToUseForTest =
     [\<lparr>latitude = -45, longitude = -140, measure' = 10\<rparr>,
      \<lparr>latitude = -40, longitude = -145, measure' = 10\<rparr>,
      \<lparr>latitude = -35, longitude = -150, measure' = 10\<rparr>,
      \<lparr>latitude = -30, longitude = -155, measure' = 10\<rparr>,
      \<lparr>latitude = -25, longitude = -160, measure' = 10\<rparr>,
      \<lparr>latitude = -20, longitude = -165, measure' = 10\<rparr>,
      \<lparr>latitude = -15, longitude = -170, measure' = 10\<rparr>,
      \<lparr>latitude = -10, longitude = -175, measure' = 10\<rparr>,
      \<lparr>latitude = -5, longitude = -1799 / 10, measure' = 10\<rparr>,
      \<lparr>latitude = 0, longitude = 1799 / 10, measure' = 10\<rparr>,
      \<lparr>latitude = 5, longitude = 175, measure' = 10\<rparr>,
      \<lparr>latitude = 10, longitude = 170, measure' = 10\<rparr>,
      \<lparr>latitude = 15, longitude = 165, measure' = 10\<rparr>,
      \<lparr>latitude = 20, longitude = 160, measure' = 10\<rparr>,
      \<lparr>latitude = 25, longitude = 155, measure' = 10\<rparr>,
      \<lparr>latitude = 30, longitude = 150, measure' = 10\<rparr>,
      \<lparr>latitude = 35, longitude = 145, measure' = 10\<rparr>,
      \<lparr>latitude = 40, longitude = 140, measure' = 10\<rparr>,
      \<lparr>latitude = 45, longitude = 135, measure' = 10\<rparr>]"

definition antimeridianSector :: Sector where
  "antimeridianSector =
     \<lparr>minLatitude = -30, maxLatitude = 30, minLongitude = -225, maxLongitude = -160\<rparr>"

text \<open>
  The other sector of the repository's test, the twelve points its antimeridian query
  returns in the order the test expects, and a sector that reaches east past 180.
\<close>

definition standardSector :: Sector where
  "standardSector = \<lparr>minLatitude = 20, maxLatitude = 30, minLongitude = 150, maxLongitude = 160\<rparr>"

definition antimeridianResult :: "MeasuredLocation list" where
  "antimeridianResult =
     [\<lparr>latitude = -25, longitude = -160, measure' = 10\<rparr>,
      \<lparr>latitude = -20, longitude = -165, measure' = 10\<rparr>,
      \<lparr>latitude = -15, longitude = -170, measure' = 10\<rparr>,
      \<lparr>latitude = -10, longitude = -175, measure' = 10\<rparr>,
      \<lparr>latitude = -5, longitude = -1799 / 10, measure' = 10\<rparr>,
      \<lparr>latitude = 0, longitude = -1801 / 10, measure' = 10\<rparr>,
      \<lparr>latitude = 5, longitude = -185, measure' = 10\<rparr>,
      \<lparr>latitude = 10, longitude = -190, measure' = 10\<rparr>,
      \<lparr>latitude = 15, longitude = -195, measure' = 10\<rparr>,
      \<lparr>latitude = 20, longitude = -200, measure' = 10\<rparr>,
      \<lparr>latitude = 25, longitude = -205, measure' = 10\<rparr>,
      \<lparr>latitude = 30, longitude = -210, measure' = 10\<rparr>]"

definition eastSector :: Sector where
  "eastSector = \<lparr>minLatitude = -30, maxLatitude = 30, minLongitude = 160, maxLongitude = 225\<rparr>"

text \<open>
  The table the specification describes for a scale of length \<open>k\<close>: the stop \<open>i / k\<close>
  mapped to the \<open>i\<close>-th colour, for \<open>i\<close> from \<open>0\<close> to \<open>k - 1\<close>, in scale order.
\<close>

definition continuousTable :: "string list \<Rightarrow> gradient" where
  "continuousTable scale =
     map (\<lambda>i. (Stop (of_nat i / of_nat (length scale)), scale ! i)) [0..<length scale]"

text \<open>
  A layer with the values the constructor of \<open>HeatMapLayer\<close> gives it, over an empty
  array in ARRAY mode, for the examples.
\<close>

definition exampleLayer :: HeatMapLayer where
  "exampleLayer =
     \<lparr>tileWidth = 512, tileHeight = 512,
      filter' = \<lparr>data' = ArrayData [], dataStructure' = ''ARRAY''\<rparr>,
      intervalType' = CONTINUOUS,
      scale' = [''blue'', ''cyan'', ''lime'', ''yellow'', ''red''],
      radius' = Radius 25, blur' = 10, incrementPerIntensity' = 1 / 40,
      gradient' =
        [(Stop 0, ''blue''), (Stop (1 / 5), ''cyan''), (Stop (2 / 5), ''lime''),
         (Stop (3 / 5), ''yellow''), (Stop (4 / 5), ''red'')]\<rparr>"

section \<open>The grid that createGrid builds\<close>

lemma fold_upd_lookup:
  "fold (\<lambda>k m. m(k \<mapsto> v)) ks m0 x = (if x \<in> set ks then Some v else m0 x)"
  by (induction ks arbitrary: m0) auto

lemma emptyRow_lookup: "emptyRow lon = (if -180 \<le> lon \<and> lon \<le> 180 then Some [] else None)"
  unfolding emptyRow_def fold_upd_lookup set_upto by simp

lemma emptyGrid_lookup: "emptyGrid lat = (if -90 \<le> lat \<and> lat \<le> 90 then Some emptyRow else None)"
  unfolding emptyGrid_def fold_upd_lookup set_upto by simp

lemma emptyGrid_eq: "emptyGrid = gridOfPoints []"
  by (rule ext) (auto simp: emptyGrid_lookup gridOfPoints_def cellOf_def emptyRow_lookup)

lemma pushMeasured_gridOfPoints:
  "pushMeasured m (gridOfPoints ms) =
     (if inGrid m then Inr (gridOfPoints (ms @ [m])) else Inl TypeError)"
proof (cases "inGrid m")
  case False
  then show ?thesis
    by (auto simp: pushMeasured_def gridOfPoints_def inGrid_def)
next
  case True
  have "(gridOfPoints ms)(\<lfloor>latitude m\<rfloor> \<mapsto>
          (\<lambda>lon. if -180 \<le> lon \<and> lon \<le> 180 then Some (cellOf ms \<lfloor>latitude m\<rfloor> lon) else None)
            (\<lfloor>longitude m\<rfloor> \<mapsto> cellOf ms \<lfloor>latitude m\<rfloor> \<lfloor>longitude m\<rfloor> @ [m]))
        = gridOfPoints (ms @ [m])"
    using True
    apply (intro ext)
    apply (auto simp: gridOfPoints_def inGrid_def cellOf_def fun_eq_iff)
    done
  with True show ?thesis
    by (simp add: pushMeasured_def gridOfPoints_def inGrid_def)
qed

lemma pushAll_gridOfPoints:
  "pushAll rest (gridOfPoints ms) =
     (if \<forall>m\<in>set rest. inGrid m then Inr (gridOfPoints (ms @ rest)) else Inl TypeError)"
proof (induction rest arbitrary: ms)
  case Nil
  show ?case by simp
next
  case (Cons m rest)
  show ?case
    by (simp add: pushMeasured_gridOfPoints Cons.IH)
qed

lemma createGrid_eq:
  "createGrid ms = (if \<forall>m\<in>set ms. inGrid m then Inr (gridOfPoints ms) else Inl TypeError)"
  using pushAll_gridOfPoints [of ms "[]"] by (simp add: createGrid_def emptyGrid_eq)

lemma scanRow_gridOfPoints:
  "scanRow (gridOfPoints ms) visit lat lons =
     (if lons = [] \<or> (latInGrid lat \<and> list_all lonInGrid lons)
      then Inr (concat (map visit (concat (map (cellOf ms lat) lons))))
      else Inl TypeError)"
  by (induction lons) (auto simp: gridOfPoints_def latInGrid_def lonInGrid_def)

lemma scanRows_gridOfPoints:
  "scanRows (gridOfPoints ms) visit lats lons =
     (if lats = [] \<or> lons = [] \<or> (list_all latInGrid lats \<and> list_all lonInGrid lons)
      then Inr (concat (map visit (cellsInOrder ms lats lons)))
      else Inl TypeError)"
proof (induction lats)
  case Nil
  show ?case by (simp add: cellsInOrder_def)
next
  case (Cons lat lats)
  then show ?case
    by (cases "lons = []") (auto simp: scanRow_gridOfPoints cellsInOrder_def)
qed

lemma set_cellsInOrder:
  "set (cellsInOrder ms lats lons) =
     {m \<in> set ms. \<lfloor>latitude m\<rfloor> \<in> set lats \<and> \<lfloor>longitude m\<rfloor> \<in> set lons}"
  by (auto simp: cellsInOrder_def cellOf_def)

text \<open>Bucketing a list that is sorted by the key and reading the buckets in key order.\<close>

lemma buckets_notin:
  "\<forall>x\<in>set xs. key x \<notin> set ks \<Longrightarrow> concat (map (\<lambda>k. [x \<leftarrow> xs. key x = k]) ks) = []"
  by (induction ks) (auto simp: filter_empty_conv)

lemma buckets_Cons_notin:
  "key x \<notin> set ks \<Longrightarrow>
     concat (map (\<lambda>k. [y \<leftarrow> x # xs. key y = k]) ks) = concat (map (\<lambda>k. [y \<leftarrow> xs. key y = k]) ks)"
  by (induction ks) auto

lemma buckets_sorted:
  fixes key :: "'a \<Rightarrow> int"
  assumes "sorted (map key xs)"
  shows "concat (map (\<lambda>k. [x \<leftarrow> xs. key x = k]) [c..d]) = [x \<leftarrow> xs. c \<le> key x \<and> key x \<le> d]"
  using assms
proof (induction xs)
  case Nil
  show ?case by simp
next
  case (Cons x xs)
  then have IH: "concat (map (\<lambda>k. [x \<leftarrow> xs. key x = k]) [c..d]) = [x \<leftarrow> xs. c \<le> key x \<and> key x \<le> d]"
    and ge: "\<forall>y\<in>set xs. key x \<le> key y"
    by auto
  show ?case
  proof (cases "c \<le> key x \<and> key x \<le> d")
    case False
    then have "key x \<notin> set [c..d]" by auto
    then have "concat (map (\<lambda>k. [y \<leftarrow> x # xs. key y = k]) [c..d]) =
        concat (map (\<lambda>k. [y \<leftarrow> xs. key y = k]) [c..d])"
      by (rule buckets_Cons_notin)
    also have "\<dots> = [y \<leftarrow> xs. c \<le> key y \<and> key y \<le> d]"
      by (rule IH)
    also have "\<dots> = [y \<leftarrow> x # xs. c \<le> key y \<and> key y \<le> d]"
      using False by simp
    finally show ?thesis .
  next
    case True
    then have split: "[c..d] = [c..key x - 1] @ key x # [key x + 1..d]"
      by (simp add: upto_split3)
    have dec: "concat (map F [c..d]) =
        concat (map F [c..key x - 1]) @ F (key x) @ concat (map F [key x + 1..d])"
      for F :: "int \<Rightarrow> 'a list"
      unfolding split by simp
    have low: "concat (map (\<lambda>k. [y \<leftarrow> xs. key y = k]) [c..key x - 1]) = []"
      using ge by (intro buckets_notin) auto
    have below: "concat (map (\<lambda>k. [y \<leftarrow> x # xs. key y = k]) [c..key x - 1]) =
        concat (map (\<lambda>k. [y \<leftarrow> xs. key y = k]) [c..key x - 1])"
      by (rule buckets_Cons_notin) simp
    have above: "concat (map (\<lambda>k. [y \<leftarrow> x # xs. key y = k]) [key x + 1..d]) =
        concat (map (\<lambda>k. [y \<leftarrow> xs. key y = k]) [key x + 1..d])"
      by (rule buckets_Cons_notin) simp
    have "concat (map (\<lambda>k. [y \<leftarrow> x # xs. key y = k]) [c..d]) =
        concat (map (\<lambda>k. [y \<leftarrow> x # xs. key y = k]) [c..key x - 1]) @
        [y \<leftarrow> x # xs. key y = key x] @
        concat (map (\<lambda>k. [y \<leftarrow> x # xs. key y = k]) [key x + 1..d])"
      by (rule dec)
    also have "\<dots> = [y \<leftarrow> x # xs. key y = key x] @
        concat (map (\<lambda>k. [y \<leftarrow> xs. key y = k]) [key x + 1..d])"
      unfolding below above low by simp
    also have "\<dots> = x # concat (map (\<lambda>k. [y \<leftarrow> xs. key y = k]) [c..d])"
      using dec [of "\<lambda>k. [y \<leftarrow> xs. key y = k]"] low by simp
    finally show ?thesis using True IH by simp
  qed
qed

lemma cellsInOrder_cellOrdered:
  assumes "cellOrdered ms"
  shows "cellsInOrder ms [a..b] [c..d] =
     [m \<leftarrow> ms. a \<le> \<lfloor>latitude m\<rfloor> \<and> \<lfloor>latitude m\<rfloor> \<le> b \<and> c \<le> \<lfloor>longitude m\<rfloor> \<and> \<lfloor>longitude m\<rfloor> \<le> d]"
proof -
  have row: "concat (map (cellOf ms lat) [c..d]) =
      [m \<leftarrow> [m \<leftarrow> ms. c \<le> \<lfloor>longitude m\<rfloor> \<and> \<lfloor>longitude m\<rfloor> \<le> d]. \<lfloor>latitude m\<rfloor> = lat]" for lat
  proof -
    have "sorted (map (\<lambda>m. \<lfloor>longitude m\<rfloor>) [m \<leftarrow> ms. \<lfloor>latitude m\<rfloor> = lat])"
      using assms unfolding cellOrdered_def
      by (induction ms) (auto simp: sorted_wrt_map)
    from buckets_sorted [OF this, of c d]
    have "concat (map (\<lambda>k. [m \<leftarrow> ms. \<lfloor>latitude m\<rfloor> = lat \<and> \<lfloor>longitude m\<rfloor> = k]) [c..d]) =
        [m \<leftarrow> ms. \<lfloor>latitude m\<rfloor> = lat \<and> c \<le> \<lfloor>longitude m\<rfloor> \<and> \<lfloor>longitude m\<rfloor> \<le> d]"
      by (simp add: conj_commute)
    then show ?thesis
      by (simp add: cellOf_def [abs_def] conj_commute cong: conj_cong)
  qed
  have "sorted (map (\<lambda>m. \<lfloor>latitude m\<rfloor>) [m \<leftarrow> ms. c \<le> \<lfloor>longitude m\<rfloor> \<and> \<lfloor>longitude m\<rfloor> \<le> d])"
    using assms unfolding cellOrdered_def
    by (induction ms) (auto simp: sorted_wrt_map)
  from buckets_sorted [OF this, of a b] show ?thesis
    by (simp add: cellsInOrder_def row conj_commute conj_left_commute cong: conj_cong)
qed

section \<open>The query on the grid that createGrid builds\<close>

lemma grid_ranges_in_grid:
  "list_all latInGrid [gridMinLatitude sector..gridMaxLatitude sector]"
  "list_all lonInGrid [gridMinLongitude sector..gridMaxLongitude sector]"
proof -
  obtain a b c d where f: "\<lfloor>minLatitude sector\<rfloor> = a" "\<lfloor>maxLatitude sector\<rfloor> = b"
      "\<lfloor>minLongitude sector\<rfloor> = c" "\<lfloor>maxLongitude sector\<rfloor> = d"
    by simp
  show "list_all latInGrid [gridMinLatitude sector..gridMaxLatitude sector]"
    unfolding list_all_iff set_upto gridMinLatitude_def gridMaxLatitude_def latInGrid_def f
    by auto
  show "list_all lonInGrid [gridMinLongitude sector..gridMaxLongitude sector]"
    unfolding list_all_iff set_upto gridMinLongitude_def gridMaxLongitude_def lonInGrid_def f
    by auto
qed

lemma gridPrimary_gridOfPoints:
  "gridPrimary (gridOfPoints ms) sector =
     Inr (concat (map (pushContained sector)
       (cellsInOrder ms [gridMinLatitude sector..gridMaxLatitude sector]
          [gridMinLongitude sector..gridMaxLongitude sector])))"
  by (simp add: gridPrimary_def scanRows_gridOfPoints grid_ranges_in_grid)

lemma extraLongitude_nonneg:
  "0 \<le> extraLongitudeBefore sector" "0 \<le> extraLongitudeAfter sector"
proof -
  obtain c d where f: "\<lfloor>minLongitude sector\<rfloor> = c" "\<lfloor>maxLongitude sector\<rfloor> = d"
    by simp
  show "0 \<le> extraLongitudeBefore sector" "0 \<le> extraLongitudeAfter sector"
    unfolding extraLongitudeBefore_def extraLongitudeAfter_def f by auto
qed

lemma gridBefore_gridOfPoints:
  assumes "extraLongitudeBefore sector \<le> 360"
  shows "gridBefore (gridOfPoints ms) sector =
     Inr (if extraLongitudeBefore sector \<noteq> 0 then
        concat (map (pushShifted
            (beforeSector (gridMinLatitude sector) (gridMaxLatitude sector) sector) (-360))
          (cellsInOrder ms [gridMinLatitude sector..gridMaxLatitude sector]
             [180 - extraLongitudeBefore sector..180]))
      else [])"
proof -
  have "list_all lonInGrid [180 - extraLongitudeBefore sector..180]"
    using assms extraLongitude_nonneg(1) [of sector]
    unfolding list_all_iff set_upto lonInGrid_def by auto
  then show ?thesis
    by (simp add: gridBefore_def scanRows_gridOfPoints grid_ranges_in_grid)
qed

lemma gridAfter_gridOfPoints:
  assumes "extraLongitudeAfter sector \<le> 360"
  shows "gridAfter (gridOfPoints ms) sector =
     Inr (if extraLongitudeAfter sector \<noteq> 0 then
        concat (map (pushShifted
            (afterSector (gridMinLatitude sector) (gridMaxLatitude sector) sector) 360)
          (cellsInOrder ms [gridMinLatitude sector..gridMaxLatitude sector]
             [-180..-180 + extraLongitudeAfter sector]))
      else [])"
proof -
  have "list_all lonInGrid [-180..-180 + extraLongitudeAfter sector]"
    using assms extraLongitude_nonneg(2) [of sector]
    unfolding list_all_iff set_upto lonInGrid_def by auto
  then show ?thesis
    by (simp add: gridAfter_def scanRows_gridOfPoints grid_ranges_in_grid)
qed

lemma set_pushContained:
  "set (concat (map (pushContained sector) ms)) =
     {m \<in> set ms. containsLocation sector (latitude m) (longitude m)}"
  by (auto simp: pushContained_def)

lemma no_wrap_amounts:
  assumes "-180 < minLongitude sector" "maxLongitude sector < 180"
  shows "extraLongitudeBefore sector = 0" "extraLongitudeAfter sector = 0"
proof -
  have "-180 \<le> \<lfloor>minLongitude sector\<rfloor>"
    using assms(1) by (simp add: le_floor_iff)
  moreover have "\<lfloor>maxLongitude sector\<rfloor> < 180"
    using assms(2) by (simp add: floor_less_iff)
  moreover obtain c d where f: "\<lfloor>minLongitude sector\<rfloor> = c" "\<lfloor>maxLongitude sector\<rfloor> = d"
    by simp
  ultimately show "extraLongitudeBefore sector = 0" "extraLongitudeAfter sector = 0"
    unfolding extraLongitudeBefore_def extraLongitudeAfter_def f by auto
qed

lemma contained_cell_in_scan:
  assumes "inGrid m" "containsLocation sector (latitude m) (longitude m)"
  shows "\<lfloor>latitude m\<rfloor> \<in> set [gridMinLatitude sector..gridMaxLatitude sector]"
    and "\<lfloor>longitude m\<rfloor> \<in> set [gridMinLongitude sector..gridMaxLongitude sector]"
proof -
  have mono: "\<lfloor>minLatitude sector\<rfloor> \<le> \<lfloor>latitude m\<rfloor>" "\<lfloor>latitude m\<rfloor> \<le> \<lfloor>maxLatitude sector\<rfloor>"
    "\<lfloor>minLongitude sector\<rfloor> \<le> \<lfloor>longitude m\<rfloor>" "\<lfloor>longitude m\<rfloor> \<le> \<lfloor>maxLongitude sector\<rfloor>"
    using assms(2) by (auto simp: containsLocation_def intro: floor_mono)
  obtain a b c d p q where f: "\<lfloor>minLatitude sector\<rfloor> = a" "\<lfloor>maxLatitude sector\<rfloor> = b"
      "\<lfloor>minLongitude sector\<rfloor> = c" "\<lfloor>maxLongitude sector\<rfloor> = d"
      "\<lfloor>latitude m\<rfloor> = p" "\<lfloor>longitude m\<rfloor> = q"
    by simp
  show "\<lfloor>latitude m\<rfloor> \<in> set [gridMinLatitude sector..gridMaxLatitude sector]"
    using mono assms(1)
    unfolding set_upto gridMinLatitude_def gridMaxLatitude_def inGrid_def f by auto
  show "\<lfloor>longitude m\<rfloor> \<in> set [gridMinLongitude sector..gridMaxLongitude sector]"
    using mono assms(1)
    unfolding set_upto gridMinLongitude_def gridMaxLongitude_def inGrid_def f by auto
qed

lemma grid_no_wrap:
  assumes "\<forall>m\<in>set ms. inGrid m" "-180 < minLongitude sector" "maxLongitude sector < 180"
  shows "\<exists>pushed. grid (gridOfPoints ms) sector = Inr pushed \<and>
     set pushed = {m \<in> set ms. containsLocation sector (latitude m) (longitude m)}"
proof -
  have g: "grid (gridOfPoints ms) sector =
      Inr (concat (map (pushContained sector)
       (cellsInOrder ms [gridMinLatitude sector..gridMaxLatitude sector]
          [gridMinLongitude sector..gridMaxLongitude sector])))"
    by (simp add: grid_def gridPrimary_gridOfPoints gridBefore_def gridAfter_def
        no_wrap_amounts [OF assms(2,3)])
  have "set (concat (map (pushContained sector)
       (cellsInOrder ms [gridMinLatitude sector..gridMaxLatitude sector]
          [gridMinLongitude sector..gridMaxLongitude sector]))) =
      {m \<in> set ms. containsLocation sector (latitude m) (longitude m)}"
    unfolding set_pushContained set_cellsInOrder
    using assms(1) contained_cell_in_scan by blast
  with g show ?thesis by simp
qed

lemma array_no_wrap:
  assumes "-180 < minLongitude sector" "maxLongitude sector < 180"
  shows "set (array ms sector) = {m \<in> set ms. containsLocation sector (latitude m) (longitude m)}"
  by (auto simp: array_def arrayPrimary_def arrayBefore_def arrayAfter_def
      no_wrap_amounts [OF assms] pushContained_def)

lemma sortOutcome_set: "sortOutcome comparefn xs ys \<Longrightarrow> set ys = set xs"
  by (auto simp: sortOutcome_def dest: mset_eq_setD)

lemma compareLocations_less: "compareLocations b a < 0 \<longleftrightarrow> latitude b < latitude a"
  by (simp add: compareLocations_def)

lemma sortOutcome_compareLocations_exists:
  "sortOutcome compareLocations xs (sort_key latitude xs)"
proof -
  have "sorted (map latitude (sort_key latitude xs))"
    by simp
  then have "sorted_wrt (\<lambda>a b. latitude a \<le> latitude b) (sort_key latitude xs)"
    by (simp add: sorted_map)
  then show ?thesis
    by (simp add: sortOutcome_def compareLocations_less not_less)
qed

lemma queryResult_constructed:
  assumes "GeographicalFilter ms dataStructure = Inr this"
  shows "(dataStructure = ''GRID'' \<and> (\<forall>m\<in>set ms. inGrid m) \<and>
            queryResult this sector = grid (gridOfPoints ms) sector) \<or>
         (dataStructure = ''ARRAY'' \<and> queryResult this sector = Inr (array ms sector))"
  using assms
  by (auto simp: GeographicalFilter_def createGrid_eq queryResult_def split: if_splits)

lemma filter_returns_Inr:
  "queryResult this sector = Inr pushed \<Longrightarrow>
     filter_returns this sector out \<longleftrightarrow>
       (\<exists>ys. out = Inr ys \<and> sortOutcome compareLocations pushed ys)"
  by (cases out) (auto simp: filter_returns_def)

text \<open>
  C3. For every point set from which both indices are built and every query region
  with \<open>minLongitude > -180\<close> and \<open>maxLongitude < 180\<close>, the query on the GRID index and
  the query on the ARRAY index both return, and they return the same set of points: the
  points of the set that the region contains. This holds for the arrays that \<open>grid\<close> and
  \<open>array\<close> push and for every pair of arrays that \<open>filter\<close> returns.
\<close>

theorem grid_and_array_return_the_same_points:
  assumes "GeographicalFilter ms ''GRID'' = Inr gridFilter"
    and "GeographicalFilter ms ''ARRAY'' = Inr arrayFilter"
    and "-180 < minLongitude region" and "maxLongitude region < 180"
  shows "(\<exists>fromGrid fromArray.
            queryResult gridFilter region = Inr fromGrid \<and>
            queryResult arrayFilter region = Inr fromArray \<and>
            set fromGrid = set fromArray \<and>
            set fromGrid = {m \<in> set ms. containsLocation region (latitude m) (longitude m)}) \<and>
         (\<exists>out. filter_returns gridFilter region out) \<and>
         (\<exists>out. filter_returns arrayFilter region out) \<and>
         (\<forall>out1 out2. filter_returns gridFilter region out1 \<and> filter_returns arrayFilter region out2 \<longrightarrow>
            (\<exists>ys zs. out1 = Inr ys \<and> out2 = Inr zs \<and> set ys = set zs))"
proof -
  from queryResult_constructed [OF assms(1), of region]
  have inGrid: "\<forall>m\<in>set ms. inGrid m"
    and qg: "queryResult gridFilter region = grid (gridOfPoints ms) region"
    by auto
  from queryResult_constructed [OF assms(2), of region]
  have qa: "queryResult arrayFilter region = Inr (array ms region)"
    by auto
  from grid_no_wrap [OF inGrid assms(3,4)] obtain fromGrid
    where g: "grid (gridOfPoints ms) region = Inr fromGrid"
      and sg: "set fromGrid = {m \<in> set ms. containsLocation region (latitude m) (longitude m)}"
    by blast
  have sa: "set (array ms region) = {m \<in> set ms. containsLocation region (latitude m) (longitude m)}"
    by (rule array_no_wrap [OF assms(3,4)])
  have 1: "\<exists>fromGrid fromArray.
            queryResult gridFilter region = Inr fromGrid \<and>
            queryResult arrayFilter region = Inr fromArray \<and>
            set fromGrid = set fromArray \<and>
            set fromGrid = {m \<in> set ms. containsLocation region (latitude m) (longitude m)}"
    using qg qa g sg sa by simp
  have 2: "\<exists>out. filter_returns gridFilter region out"
    using filter_returns_Inr [of gridFilter region fromGrid] qg g
      sortOutcome_compareLocations_exists [of fromGrid] by auto
  have 3: "\<exists>out. filter_returns arrayFilter region out"
    using filter_returns_Inr [of arrayFilter region "array ms region"] qa
      sortOutcome_compareLocations_exists [of "array ms region"] by auto
  have 4: "\<exists>ys zs. out1 = Inr ys \<and> out2 = Inr zs \<and> set ys = set zs"
    if "filter_returns gridFilter region out1" "filter_returns arrayFilter region out2"
    for out1 out2
  proof -
    from that(1) obtain ys where ys: "out1 = Inr ys" "sortOutcome compareLocations fromGrid ys"
      using filter_returns_Inr [of gridFilter region fromGrid] qg g by auto
    from that(2) obtain zs where zs: "out2 = Inr zs" "sortOutcome compareLocations (array ms region) zs"
      using filter_returns_Inr [of arrayFilter region "array ms region"] qa by auto
    from ys(2) zs(2) have "set ys = set zs"
      using sg sa by (simp add: sortOutcome_set)
    with ys(1) zs(1) show ?thesis by simp
  qed
  from 1 2 3 4 show ?thesis by blast
qed


lemma reference_inGrid: "\<forall>m\<in>set locationsToUseForTest. inGrid m"
  by code_simp

lemma reference_cellOrdered: "cellOrdered locationsToUseForTest"
  by code_simp

lemma reference_standard_contained:
  "[m \<leftarrow> locationsToUseForTest. containsLocation standardSector (latitude m) (longitude m)] =
     [\<lparr>latitude = 20, longitude = 160, measure' = 10\<rparr>,
      \<lparr>latitude = 25, longitude = 155, measure' = 10\<rparr>,
      \<lparr>latitude = 30, longitude = 150, measure' = 10\<rparr>]"
  by code_simp

theorem grid_and_array_return_the_same_points_witness:
  "\<exists>gridFilter arrayFilter fromGrid fromArray.
     GeographicalFilter locationsToUseForTest ''GRID'' = Inr gridFilter \<and>
     GeographicalFilter locationsToUseForTest ''ARRAY'' = Inr arrayFilter \<and>
     -180 < minLongitude standardSector \<and> maxLongitude standardSector < 180 \<and>
     queryResult gridFilter standardSector = Inr fromGrid \<and>
     queryResult arrayFilter standardSector = Inr fromArray \<and>
     set fromGrid = set fromArray \<and>
     set fromGrid = {\<lparr>latitude = 20, longitude = 160, measure' = 10\<rparr>,
      \<lparr>latitude = 25, longitude = 155, measure' = 10\<rparr>,
      \<lparr>latitude = 30, longitude = 150, measure' = 10\<rparr>}"
proof -
  have g: "GeographicalFilter locationsToUseForTest ''GRID'' =
      Inr \<lparr>data' = GridData (gridOfPoints locationsToUseForTest), dataStructure' = ''GRID''\<rparr>"
    using reference_inGrid by (simp add: GeographicalFilter_def createGrid_eq)
  have a: "GeographicalFilter locationsToUseForTest ''ARRAY'' =
      Inr \<lparr>data' = ArrayData locationsToUseForTest, dataStructure' = ''ARRAY''\<rparr>"
    by (simp add: GeographicalFilter_def)
  have lo: "-180 < minLongitude standardSector" and hi: "maxLongitude standardSector < 180"
    by (simp_all add: standardSector_def)
  have s: "{m \<in> set locationsToUseForTest.
        containsLocation standardSector (latitude m) (longitude m)} =
      {\<lparr>latitude = 20, longitude = 160, measure' = 10\<rparr>,
       \<lparr>latitude = 25, longitude = 155, measure' = 10\<rparr>,
       \<lparr>latitude = 30, longitude = 150, measure' = 10\<rparr>}"
    unfolding set_filter [symmetric] reference_standard_contained by simp
  from grid_and_array_return_the_same_points [OF g a lo hi] g a lo hi s
  show ?thesis by auto
qed

section \<open>What the passes push\<close>

lemma scanRow_pushed:
  "scanRow data visit lat lons = Inr pushed \<Longrightarrow> q \<in> set pushed \<Longrightarrow>
     \<exists>element. storedIn data element \<and> q \<in> set (visit element)"
proof (induction lons arbitrary: pushed)
  case Nil
  then show ?case by simp
next
  case (Cons lon lons)
  from Cons.prems(1) obtain row cell rest where
    r: "data lat = Some row" "row lon = Some cell" "scanRow data visit lat lons = Inr rest"
      "pushed = concat (map visit cell) @ rest"
    by (auto split: option.splits sum.splits)
  from Cons.prems(2) r(4) consider "q \<in> set (concat (map visit cell))" | "q \<in> set rest"
    by auto
  then show ?case
  proof cases
    case 1
    then obtain element where "element \<in> set cell" "q \<in> set (visit element)" by auto
    with r(1,2) show ?thesis unfolding storedIn_def by blast
  next
    case 2
    with Cons.IH [OF r(3)] show ?thesis .
  qed
qed

lemma scanRows_pushed:
  "scanRows data visit lats lons = Inr pushed \<Longrightarrow> q \<in> set pushed \<Longrightarrow>
     \<exists>element. storedIn data element \<and> q \<in> set (visit element)"
proof (induction lats arbitrary: pushed)
  case Nil
  then show ?case by simp
next
  case (Cons lat lats)
  from Cons.prems(1) obtain first rest where
    r: "scanRow data visit lat lons = Inr first" "scanRows data visit lats lons = Inr rest"
      "pushed = first @ rest"
    by (auto split: sum.splits)
  from Cons.prems(2) r(3) consider "q \<in> set first" | "q \<in> set rest"
    by auto
  then show ?case
  proof cases
    case 1
    with scanRow_pushed [OF r(1)] show ?thesis .
  next
    case 2
    with Cons.IH [OF r(2)] show ?thesis .
  qed
qed

lemma pushShifted_member:
  "q \<in> set (pushShifted sector shift element) \<longleftrightarrow>
     containsLocation sector (latitude element) (longitude element) \<and>
     q = \<lparr>latitude = latitude element, longitude = shift + longitude element,
          measure' = measure' element\<rparr>"
  by (auto simp: pushShifted_def)

text \<open>
  C5. Every point that the wrap-before pass pushes is a newly constructed point: its
  longitude is the longitude of a stored point minus 360, its latitude and its measure
  are those of the stored point, and the stored point lies in the auxiliary sector of the
  pass. The wrap-after pass pushes copies with the longitude plus 360. A pass that pushes
  a point has a strictly positive wrap amount. This holds for any grid and any array.
  Points are values here, so a constructed point shares nothing with the stored one, and
  a query has no way to change the stored points.
\<close>

theorem wrap_passes_push_shifted_copies:
  "(gridBefore data sector = Inr pushed \<and> q \<in> set pushed \<longrightarrow>
      0 < extraLongitudeBefore sector \<and>
      (\<exists>element. storedIn data element \<and>
         containsLocation (beforeSector (gridMinLatitude sector) (gridMaxLatitude sector) sector)
           (latitude element) (longitude element) \<and>
         latitude q = latitude element \<and> longitude q = longitude element - 360 \<and>
         measure' q = measure' element)) \<and>
   (gridAfter data sector = Inr pushed \<and> q \<in> set pushed \<longrightarrow>
      0 < extraLongitudeAfter sector \<and>
      (\<exists>element. storedIn data element \<and>
         containsLocation (afterSector (gridMinLatitude sector) (gridMaxLatitude sector) sector)
           (latitude element) (longitude element) \<and>
         latitude q = latitude element \<and> longitude q = longitude element + 360 \<and>
         measure' q = measure' element)) \<and>
   (q \<in> set (arrayBefore ms sector) \<longrightarrow>
      0 < extraLongitudeBefore sector \<and>
      (\<exists>element\<in>set ms.
         containsLocation (beforeSector \<lfloor>minLatitude sector\<rfloor> \<lfloor>maxLatitude sector\<rfloor> sector)
           (latitude element) (longitude element) \<and>
         latitude q = latitude element \<and> longitude q = longitude element - 360 \<and>
         measure' q = measure' element)) \<and>
   (q \<in> set (arrayAfter ms sector) \<longrightarrow>
      0 < extraLongitudeAfter sector \<and>
      (\<exists>element\<in>set ms.
         containsLocation (afterSector \<lfloor>minLatitude sector\<rfloor> \<lfloor>maxLatitude sector\<rfloor> sector)
           (latitude element) (longitude element) \<and>
         latitude q = latitude element \<and> longitude q = longitude element + 360 \<and>
         measure' q = measure' element))"
proof -
  have pos: "extraLongitudeBefore sector \<noteq> 0 \<Longrightarrow> 0 < extraLongitudeBefore sector"
    "extraLongitudeAfter sector \<noteq> 0 \<Longrightarrow> 0 < extraLongitudeAfter sector"
    using extraLongitude_nonneg [of sector] by linarith+
  have 1: "0 < extraLongitudeBefore sector \<and>
      (\<exists>element. storedIn data element \<and>
         containsLocation (beforeSector (gridMinLatitude sector) (gridMaxLatitude sector) sector)
           (latitude element) (longitude element) \<and>
         latitude q = latitude element \<and> longitude q = longitude element - 360 \<and>
         measure' q = measure' element)"
    if "gridBefore data sector = Inr pushed" "q \<in> set pushed"
  proof -
    from that have nz: "extraLongitudeBefore sector \<noteq> 0"
      by (auto simp: gridBefore_def split: if_splits)
    with that(1) have "scanRows data
          (pushShifted (beforeSector (gridMinLatitude sector) (gridMaxLatitude sector) sector) (-360))
          [gridMinLatitude sector..gridMaxLatitude sector]
          [180 - extraLongitudeBefore sector..180] = Inr pushed"
      by (simp add: gridBefore_def)
    from scanRows_pushed [OF this that(2)] pos(1) [OF nz] show ?thesis
      by (auto simp: pushShifted_member)
  qed
  have 2: "0 < extraLongitudeAfter sector \<and>
      (\<exists>element. storedIn data element \<and>
         containsLocation (afterSector (gridMinLatitude sector) (gridMaxLatitude sector) sector)
           (latitude element) (longitude element) \<and>
         latitude q = latitude element \<and> longitude q = longitude element + 360 \<and>
         measure' q = measure' element)"
    if "gridAfter data sector = Inr pushed" "q \<in> set pushed"
  proof -
    from that have nz: "extraLongitudeAfter sector \<noteq> 0"
      by (auto simp: gridAfter_def split: if_splits)
    with that(1) have "scanRows data
          (pushShifted (afterSector (gridMinLatitude sector) (gridMaxLatitude sector) sector) 360)
          [gridMinLatitude sector..gridMaxLatitude sector]
          [-180..-180 + extraLongitudeAfter sector] = Inr pushed"
      by (simp add: gridAfter_def)
    from scanRows_pushed [OF this that(2)] pos(2) [OF nz] show ?thesis
      by (auto simp: pushShifted_member)
  qed
  have 3: "0 < extraLongitudeBefore sector \<and>
      (\<exists>element\<in>set ms.
         containsLocation (beforeSector \<lfloor>minLatitude sector\<rfloor> \<lfloor>maxLatitude sector\<rfloor> sector)
           (latitude element) (longitude element) \<and>
         latitude q = latitude element \<and> longitude q = longitude element - 360 \<and>
         measure' q = measure' element)"
    if "q \<in> set (arrayBefore ms sector)"
  proof -
    from that have nz: "extraLongitudeBefore sector \<noteq> 0"
      by (auto simp: arrayBefore_def split: if_splits)
    with that pos(1) [OF nz] show ?thesis
      by (auto simp: arrayBefore_def pushShifted_member)
  qed
  have 4: "0 < extraLongitudeAfter sector \<and>
      (\<exists>element\<in>set ms.
         containsLocation (afterSector \<lfloor>minLatitude sector\<rfloor> \<lfloor>maxLatitude sector\<rfloor> sector)
           (latitude element) (longitude element) \<and>
         latitude q = latitude element \<and> longitude q = longitude element + 360 \<and>
         measure' q = measure' element)"
    if "q \<in> set (arrayAfter ms sector)"
  proof -
    from that have nz: "extraLongitudeAfter sector \<noteq> 0"
      by (auto simp: arrayAfter_def split: if_splits)
    with that pos(2) [OF nz] show ?thesis
      by (auto simp: arrayAfter_def pushShifted_member)
  qed
  from 1 2 3 4 show ?thesis by blast
qed


section \<open>The reference query\<close>

lemma antimeridian_amounts:
  "extraLongitudeBefore antimeridianSector = 45" "extraLongitudeAfter antimeridianSector = 0"
  by (simp_all add: extraLongitudeBefore_def extraLongitudeAfter_def antimeridianSector_def)

lemma reference_primary:
  "concat (map (pushContained antimeridianSector)
     [m \<leftarrow> locationsToUseForTest.
        gridMinLatitude antimeridianSector \<le> \<lfloor>latitude m\<rfloor> \<and>
        \<lfloor>latitude m\<rfloor> \<le> gridMaxLatitude antimeridianSector \<and>
        gridMinLongitude antimeridianSector \<le> \<lfloor>longitude m\<rfloor> \<and>
        \<lfloor>longitude m\<rfloor> \<le> gridMaxLongitude antimeridianSector]) =
   take 5 antimeridianResult"
  by code_simp

lemma reference_before:
  "concat (map (pushShifted
       (beforeSector (gridMinLatitude antimeridianSector) (gridMaxLatitude antimeridianSector)
          antimeridianSector) (-360))
     [m \<leftarrow> locationsToUseForTest.
        gridMinLatitude antimeridianSector \<le> \<lfloor>latitude m\<rfloor> \<and>
        \<lfloor>latitude m\<rfloor> \<le> gridMaxLatitude antimeridianSector \<and>
        135 \<le> \<lfloor>longitude m\<rfloor> \<and> \<lfloor>longitude m\<rfloor> \<le> 180]) =
   drop 5 antimeridianResult"
  by code_simp

lemma reference_gridPrimary:
  "gridPrimary (gridOfPoints locationsToUseForTest) antimeridianSector =
     Inr (take 5 antimeridianResult)"
  by (simp only: gridPrimary_gridOfPoints cellsInOrder_cellOrdered [OF reference_cellOrdered]
      reference_primary)

lemma reference_gridBefore:
  "gridBefore (gridOfPoints locationsToUseForTest) antimeridianSector =
     Inr (drop 5 antimeridianResult)"
proof -
  have "gridBefore (gridOfPoints locationsToUseForTest) antimeridianSector =
      Inr (concat (map (pushShifted
       (beforeSector (gridMinLatitude antimeridianSector) (gridMaxLatitude antimeridianSector)
          antimeridianSector) (-360))
       (cellsInOrder locationsToUseForTest
          [gridMinLatitude antimeridianSector..gridMaxLatitude antimeridianSector] [135..180])))"
    by (simp add: gridBefore_gridOfPoints antimeridian_amounts)
  then show ?thesis
    by (simp only: cellsInOrder_cellOrdered [OF reference_cellOrdered] reference_before)
qed

lemma reference_gridAfter:
  "gridAfter (gridOfPoints locationsToUseForTest) antimeridianSector = Inr []"
  by (simp add: gridAfter_def antimeridian_amounts)

lemma reference_grid:
  "grid (gridOfPoints locationsToUseForTest) antimeridianSector = Inr antimeridianResult"
  by (simp add: grid_def reference_gridPrimary reference_gridBefore reference_gridAfter)

lemma reference_array:
  "array locationsToUseForTest antimeridianSector = antimeridianResult"
  by code_simp

section \<open>The comparison function of filter\<close>

lemma compareLocations_without_ties:
  "latitude a = latitude b \<longrightarrow> longitude a = longitude b \<Longrightarrow>
     compareLocations a b =
       (if latitude a > latitude b then 1 else if latitude a < latitude b then -1 else 0)"
  by (simp add: compareLocations_def)

lemma consistent_by_key:
  fixes key :: "'a \<Rightarrow> 'k::linorder"
  assumes "\<And>a b. a \<in> set xs \<Longrightarrow> b \<in> set xs \<Longrightarrow>
     comparefn a b = (if key a > key b then 1 else if key a < key b then -1 else (0::int))"
  shows "consistentComparator comparefn xs"
proof -
  have z: "comparefn a b = 0 \<longleftrightarrow> key a = key b"
    if "a \<in> set xs" "b \<in> set xs" for a b
    unfolding assms [OF that] by auto
  have l: "comparefn a b < 0 \<longleftrightarrow> key a < key b"
    if "a \<in> set xs" "b \<in> set xs" for a b
    unfolding assms [OF that] by auto
  have g: "comparefn a b > 0 \<longleftrightarrow> key b < key a"
    if "a \<in> set xs" "b \<in> set xs" for a b
    unfolding assms [OF that] by auto
  have 1: "\<forall>a\<in>set xs. comparefn a a = 0"
    by (simp add: z)
  have 2: "\<forall>a\<in>set xs. \<forall>b\<in>set xs. comparefn a b = 0 \<longrightarrow> comparefn b a = 0"
    by (simp add: z)
  have 3: "\<forall>a\<in>set xs. \<forall>b\<in>set xs. \<forall>c\<in>set xs.
        comparefn a b = 0 \<and> comparefn b c = 0 \<longrightarrow> comparefn a c = 0"
    by (simp add: z)
  have 4: "\<forall>a\<in>set xs. \<forall>b\<in>set xs. \<forall>c\<in>set xs.
        comparefn a b < 0 \<and> comparefn b c < 0 \<longrightarrow> comparefn a c < 0"
  proof (intro ballI impI)
    fix a b c
    assume m: "a \<in> set xs" "b \<in> set xs" "c \<in> set xs"
      and "comparefn a b < 0 \<and> comparefn b c < 0"
    then have "key a < key b" "key b < key c"
      by (simp_all add: l)
    then have "key a < key c" by (rule less_trans)
    then show "comparefn a c < 0" by (simp add: l m)
  qed
  have 5: "\<forall>a\<in>set xs. \<forall>b\<in>set xs. \<forall>c\<in>set xs.
        comparefn a b > 0 \<and> comparefn b c > 0 \<longrightarrow> comparefn a c > 0"
  proof (intro ballI impI)
    fix a b c
    assume m: "a \<in> set xs" "b \<in> set xs" "c \<in> set xs"
      and "comparefn a b > 0 \<and> comparefn b c > 0"
    then have "key c < key b" "key b < key a"
      by (simp_all add: g)
    then have "key c < key a" by (rule less_trans)
    then show "comparefn a c > 0" by (simp add: g m)
  qed
  from 1 2 3 4 5 show ?thesis
    unfolding consistentComparator_def by (intro conjI)
qed

lemma compareLocations_consistent_iff:
  "consistentComparator compareLocations xs \<longleftrightarrow>
     (\<forall>a\<in>set xs. \<forall>b\<in>set xs. latitude a = latitude b \<longrightarrow> longitude a = longitude b)"
proof
  assume c: "consistentComparator compareLocations xs"
  show "\<forall>a\<in>set xs. \<forall>b\<in>set xs. latitude a = latitude b \<longrightarrow> longitude a = longitude b"
  proof (intro ballI impI)
    fix a b
    assume ab: "a \<in> set xs" "b \<in> set xs" "latitude a = latitude b"
    from c [unfolded consistentComparator_def, THEN conjunct2, THEN conjunct1]
    have "\<forall>a\<in>set xs. \<forall>b\<in>set xs. compareLocations a b = 0 \<longrightarrow> compareLocations b a = 0" .
    with ab(1,2) have sym: "compareLocations a b = 0 \<longrightarrow> compareLocations b a = 0"
      "compareLocations b a = 0 \<longrightarrow> compareLocations a b = 0"
      by blast+
    show "longitude a = longitude b"
    proof (rule ccontr)
      assume "longitude a \<noteq> longitude b"
      then consider "longitude a < longitude b" | "longitude b < longitude a"
        by linarith
      then show False
      proof cases
        case 1
        with ab(3) have "compareLocations a b = 0" "compareLocations b a = 1"
          by (simp_all add: compareLocations_def)
        with sym show False by simp
      next
        case 2
        with ab(3) have "compareLocations b a = 0" "compareLocations a b = 1"
          by (simp_all add: compareLocations_def)
        with sym show False by simp
      qed
    qed
  qed
next
  assume t: "\<forall>a\<in>set xs. \<forall>b\<in>set xs. latitude a = latitude b \<longrightarrow> longitude a = longitude b"
  show "consistentComparator compareLocations xs"
  proof (rule consistent_by_key [where key = latitude])
    fix a b
    assume "a \<in> set xs" "b \<in> set xs"
    with t have "latitude a = latitude b \<longrightarrow> longitude a = longitude b" by blast
    then show "compareLocations a b =
       (if latitude a > latitude b then 1 else if latitude a < latitude b then -1 else 0)"
      by (rule compareLocations_without_ties)
  qed
qed

lemma sortOutcome_compareLocations_sorted:
  assumes "sortOutcome compareLocations xs ys"
    and "\<forall>a\<in>set xs. \<forall>b\<in>set xs. latitude a = latitude b \<longrightarrow> longitude a = longitude b"
  shows "sortedByLatitudeThenLongitude ys"
proof -
  from assms(2) have "consistentComparator compareLocations xs"
    by (rule iffD2 [OF compareLocations_consistent_iff])
  with assms(1) have s: "sorted_wrt (\<lambda>a b. \<not> compareLocations b a < 0) ys"
    unfolding sortOutcome_def by blast
  have set: "set ys = set xs"
    using assms(1) by (rule sortOutcome_set)
  have "latitude a < latitude b \<or> (latitude a = latitude b \<and> longitude a \<le> longitude b)"
    if "a \<in> set ys" "b \<in> set ys" "\<not> compareLocations b a < 0" for a b
  proof -
    from that(3) have "latitude a \<le> latitude b"
      by (simp add: compareLocations_less)
    then consider "latitude a < latitude b" | "latitude a = latitude b"
      by linarith
    then show ?thesis
    proof cases
      case 1
      then show ?thesis by simp
    next
      case 2
      with that(1,2) assms(2) have "longitude a = longitude b"
        unfolding set by blast
      with 2 show ?thesis by simp
    qed
  qed
  with s show ?thesis
    unfolding sortedByLatitudeThenLongitude_def
    by (rule sorted_wrt_mono_rel [rotated])
qed


lemma sortOutcome_compareLocations_unique:
  assumes "sorted (map latitude xs)" "distinct (map latitude xs)"
  shows "sortOutcome compareLocations xs ys \<longleftrightarrow> ys = xs"
proof
  assume o: "sortOutcome compareLocations xs ys"
  have inj: "inj_on latitude (set xs)" and dx: "distinct xs"
    using assms(2) by (simp_all add: distinct_map)
  then have ties: "\<forall>a\<in>set xs. \<forall>b\<in>set xs. latitude a = latitude b \<longrightarrow> longitude a = longitude b"
    by (auto dest: inj_onD)
  then have "consistentComparator compareLocations xs"
    by (rule iffD2 [OF compareLocations_consistent_iff])
  with o have "sorted_wrt (\<lambda>a b. \<not> compareLocations b a < 0) ys"
    unfolding sortOutcome_def by blast
  then have sy: "sorted (map latitude ys)"
    by (simp add: sorted_map compareLocations_less not_less)
  from o have m: "mset ys = mset xs"
    by (simp add: sortOutcome_def)
  then have set: "set ys = set xs"
    by (rule mset_eq_setD)
  from m have "mset (map latitude ys) = mset (map latitude xs)"
    by simp
  then have "distinct (map latitude ys) \<longleftrightarrow> distinct (map latitude xs)"
    by (rule mset_eq_imp_distinct_iff)
  with assms(2) have dy: "distinct (map latitude ys)"
    by simp
  show "ys = xs"
    by (rule map_sorted_distinct_set_unique [of latitude])
       (use inj set sy dy assms in auto)
next
  assume "ys = xs"
  moreover have "sorted_wrt (\<lambda>a b. \<not> compareLocations b a < 0) xs"
    using assms(1) by (simp add: sorted_map compareLocations_less not_less)
  ultimately show "sortOutcome compareLocations xs ys"
    by (simp add: sortOutcome_def)
qed

lemma antimeridianResult_latitudes:
  "sorted (map latitude antimeridianResult)" "distinct (map latitude antimeridianResult)"
  by (simp_all add: antimeridianResult_def)

lemma reference_filter_returns:
  assumes "queryResult this antimeridianSector = Inr antimeridianResult"
  shows "filter_returns this antimeridianSector out \<longleftrightarrow> out = Inr antimeridianResult"
  using assms
  by (auto simp: filter_returns_Inr sortOutcome_compareLocations_unique antimeridianResult_latitudes)

text \<open>
  C2 (as amended). Querying the reference point set with the region \<open>minLat = -30\<close>,
  \<open>maxLat = 30\<close>, \<open>minLon = -225\<close>, \<open>maxLon = -160\<close> returns, in either mode, exactly 12
  points: what \<open>grid\<close> and \<open>array\<close> push is already in ascending order of latitude, and
  it is the one array \<open>filter\<close> can return. In the returned order the longitudes are
  descending: -160, -165, -170, -175, -179.9, -180.1, -185, -190, -195, -200, -205, -210.
\<close>

theorem reference_query_returns_twelve_points:
  assumes "GeographicalFilter locationsToUseForTest dataStructure = Inr this"
  shows "queryResult this antimeridianSector = Inr antimeridianResult \<and>
    (\<forall>out. filter_returns this antimeridianSector out \<longleftrightarrow> out = Inr antimeridianResult) \<and>
    length antimeridianResult = 12 \<and>
    map longitude antimeridianResult =
      [-160, -165, -170, -175, -1799 / 10, -1801 / 10, -185, -190, -195, -200, -205, -210]"
proof -
  from queryResult_constructed [OF assms, of antimeridianSector]
  have q: "queryResult this antimeridianSector = Inr antimeridianResult"
    by (auto simp: reference_grid reference_array)
  moreover have "length antimeridianResult = 12"
    by (simp add: antimeridianResult_def)
  moreover have "map longitude antimeridianResult =
      [-160, -165, -170, -175, -1799 / 10, -1801 / 10, -185, -190, -195, -200, -205, -210]"
    by (simp add: antimeridianResult_def)
  ultimately show ?thesis
    using reference_filter_returns [OF q] by blast
qed

theorem reference_query_returns_twelve_points_witness:
  "GeographicalFilter locationsToUseForTest ''GRID'' =
     Inr \<lparr>data' = GridData (gridOfPoints locationsToUseForTest), dataStructure' = ''GRID''\<rparr> \<and>
   queryResult \<lparr>data' = GridData (gridOfPoints locationsToUseForTest), dataStructure' = ''GRID''\<rparr>
     antimeridianSector = Inr antimeridianResult \<and>
   filter_returns \<lparr>data' = GridData (gridOfPoints locationsToUseForTest), dataStructure' = ''GRID''\<rparr>
     antimeridianSector (Inr antimeridianResult) \<and>
   length antimeridianResult = 12"
proof -
  have g: "GeographicalFilter locationsToUseForTest ''GRID'' =
      Inr \<lparr>data' = GridData (gridOfPoints locationsToUseForTest), dataStructure' = ''GRID''\<rparr>"
    using reference_inGrid by (simp add: GeographicalFilter_def createGrid_eq)
  from reference_query_returns_twelve_points [OF g] g show ?thesis
    by simp
qed

text \<open>
  C2 as stated lists the longitudes in ascending order, which is the reverse of what the
  query returns (and of what the repository's test expects).
\<close>

theorem reference_query_order_counterexample:
  "GeographicalFilter locationsToUseForTest ''GRID'' =
     Inr \<lparr>data' = GridData (gridOfPoints locationsToUseForTest), dataStructure' = ''GRID''\<rparr> \<and>
   filter_returns \<lparr>data' = GridData (gridOfPoints locationsToUseForTest), dataStructure' = ''GRID''\<rparr>
     antimeridianSector (Inr antimeridianResult) \<and>
   map longitude antimeridianResult \<noteq>
     [-210, -205, -200, -195, -190, -185, -1801 / 10, -1799 / 10, -175, -170, -165, -160]"
proof -
  have g: "GeographicalFilter locationsToUseForTest ''GRID'' =
      Inr \<lparr>data' = GridData (gridOfPoints locationsToUseForTest), dataStructure' = ''GRID''\<rparr>"
    using reference_inGrid by (simp add: GeographicalFilter_def createGrid_eq)
  have q: "queryResult \<lparr>data' = GridData (gridOfPoints locationsToUseForTest), dataStructure' = ''GRID''\<rparr>
     antimeridianSector = Inr antimeridianResult"
    by (simp add: queryResult_def reference_grid)
  have "map longitude antimeridianResult \<noteq>
     [-210, -205, -200, -195, -190, -185, -1801 / 10, -1799 / 10, -175, -170, -165, -160]"
    by (simp add: antimeridianResult_def)
  with g reference_filter_returns [OF q] show ?thesis
    by simp
qed



lemma east_amounts:
  "extraLongitudeBefore eastSector = 0" "extraLongitudeAfter eastSector = 45"
  by (simp_all add: extraLongitudeBefore_def extraLongitudeAfter_def eastSector_def)

lemma reference_after_member:
  "\<lparr>latitude = -5, longitude = 1801 / 10, measure' = 10\<rparr> \<in> set (concat (map (pushShifted
       (afterSector (gridMinLatitude eastSector) (gridMaxLatitude eastSector) eastSector) 360)
     [m \<leftarrow> locationsToUseForTest.
        gridMinLatitude eastSector \<le> \<lfloor>latitude m\<rfloor> \<and>
        \<lfloor>latitude m\<rfloor> \<le> gridMaxLatitude eastSector \<and>
        -180 \<le> \<lfloor>longitude m\<rfloor> \<and> \<lfloor>longitude m\<rfloor> \<le> -135]))"
  by code_simp

lemma reference_gridAfter_east:
  "gridAfter (gridOfPoints locationsToUseForTest) eastSector =
     Inr (concat (map (pushShifted
       (afterSector (gridMinLatitude eastSector) (gridMaxLatitude eastSector) eastSector) 360)
     [m \<leftarrow> locationsToUseForTest.
        gridMinLatitude eastSector \<le> \<lfloor>latitude m\<rfloor> \<and>
        \<lfloor>latitude m\<rfloor> \<le> gridMaxLatitude eastSector \<and>
        -180 \<le> \<lfloor>longitude m\<rfloor> \<and> \<lfloor>longitude m\<rfloor> \<le> -135]))"
proof -
  have "gridAfter (gridOfPoints locationsToUseForTest) eastSector =
      Inr (concat (map (pushShifted
       (afterSector (gridMinLatitude eastSector) (gridMaxLatitude eastSector) eastSector) 360)
       (cellsInOrder locationsToUseForTest
          [gridMinLatitude eastSector..gridMaxLatitude eastSector] [-180..-135])))"
    by (simp add: gridAfter_gridOfPoints east_amounts)
  then show ?thesis
    by (simp only: cellsInOrder_cellOrdered [OF reference_cellOrdered])
qed

lemma reference_arrayBefore_member:
  "\<lparr>latitude = 0, longitude = -1801 / 10, measure' = 10\<rparr> \<in>
     set (arrayBefore locationsToUseForTest antimeridianSector)"
  by code_simp

lemma reference_arrayAfter_member:
  "\<lparr>latitude = -5, longitude = 1801 / 10, measure' = 10\<rparr> \<in>
     set (arrayAfter locationsToUseForTest eastSector)"
  by code_simp

theorem wrap_passes_push_shifted_copies_witness:
  "(\<exists>pushed. gridBefore (gridOfPoints locationsToUseForTest) antimeridianSector = Inr pushed \<and>
      \<lparr>latitude = 0, longitude = -1801 / 10, measure' = 10\<rparr> \<in> set pushed) \<and>
   (\<exists>element. storedIn (gridOfPoints locationsToUseForTest) element \<and>
      latitude element = 0 \<and> longitude element = -1801 / 10 + 360 \<and> measure' element = 10) \<and>
   (\<exists>pushed. gridAfter (gridOfPoints locationsToUseForTest) eastSector = Inr pushed \<and>
      \<lparr>latitude = -5, longitude = 1801 / 10, measure' = 10\<rparr> \<in> set pushed) \<and>
   (\<exists>element. storedIn (gridOfPoints locationsToUseForTest) element \<and>
      latitude element = -5 \<and> longitude element = 1801 / 10 - 360 \<and> measure' element = 10) \<and>
   \<lparr>latitude = 0, longitude = -1801 / 10, measure' = 10\<rparr> \<in>
     set (arrayBefore locationsToUseForTest antimeridianSector) \<and>
   \<lparr>latitude = -5, longitude = 1801 / 10, measure' = 10\<rparr> \<in>
     set (arrayAfter locationsToUseForTest eastSector) \<and>
   (\<exists>element\<in>set locationsToUseForTest.
      latitude element = 0 \<and> longitude element = -1801 / 10 + 360 \<and> measure' element = 10) \<and>
   (\<exists>element\<in>set locationsToUseForTest.
      latitude element = -5 \<and> longitude element = 1801 / 10 - 360 \<and> measure' element = 10)"
proof -
  let ?b = "\<lparr>latitude = 0, longitude = -1801 / 10, measure' = 10 :: rat\<rparr>"
  let ?a = "\<lparr>latitude = -5, longitude = 1801 / 10, measure' = 10 :: rat\<rparr>"
  have mb: "?b \<in> set (drop 5 antimeridianResult)"
    by (simp add: antimeridianResult_def)
  note b = wrap_passes_push_shifted_copies
    [of "gridOfPoints locationsToUseForTest" antimeridianSector "drop 5 antimeridianResult" ?b
      locationsToUseForTest]
  note a = wrap_passes_push_shifted_copies
    [of "gridOfPoints locationsToUseForTest" eastSector _ ?a locationsToUseForTest]
  have 1: "\<exists>pushed. gridBefore (gridOfPoints locationsToUseForTest) antimeridianSector = Inr pushed \<and>
      ?b \<in> set pushed"
    using reference_gridBefore mb by blast
  have 2: "\<exists>element. storedIn (gridOfPoints locationsToUseForTest) element \<and>
      latitude element = 0 \<and> longitude element = -1801 / 10 + 360 \<and> measure' element = 10"
    using b reference_gridBefore mb by fastforce
  have 3: "\<exists>pushed. gridAfter (gridOfPoints locationsToUseForTest) eastSector = Inr pushed \<and>
      ?a \<in> set pushed"
    using reference_gridAfter_east reference_after_member by blast
  have 4: "\<exists>element. storedIn (gridOfPoints locationsToUseForTest) element \<and>
      latitude element = -5 \<and> longitude element = 1801 / 10 - 360 \<and> measure' element = 10"
    using a reference_gridAfter_east reference_after_member by fastforce
  have 5: "\<exists>element\<in>set locationsToUseForTest.
      latitude element = 0 \<and> longitude element = -1801 / 10 + 360 \<and> measure' element = 10"
    using b reference_arrayBefore_member by fastforce
  have 6: "\<exists>element\<in>set locationsToUseForTest.
      latitude element = -5 \<and> longitude element = 1801 / 10 - 360 \<and> measure' element = 10"
    using a reference_arrayAfter_member by fastforce
  from 1 2 3 4 5 6 reference_arrayBefore_member reference_arrayAfter_member
  show ?thesis by blast
qed

section \<open>The order of the array that filter returns\<close>

text \<open>
  When no two of the pushed points share a latitude with different longitudes, the
  comparison function is consistent and every array \<open>filter\<close> returns is in order.
\<close>

lemma filter_sorted_without_ties:
  assumes "queryResult this sector = Inr pushed"
    and "\<forall>a\<in>set pushed. \<forall>b\<in>set pushed. latitude a = latitude b \<longrightarrow> longitude a = longitude b"
    and "filter_returns this sector out"
  shows "\<exists>ys. out = Inr ys \<and> mset ys = mset pushed \<and> sortedByLatitudeThenLongitude ys"
proof -
  from assms(1,3) obtain ys where ys: "out = Inr ys" "sortOutcome compareLocations pushed ys"
    by (auto simp: filter_returns_Inr)
  from ys(2) assms(2) have "sortedByLatitudeThenLongitude ys"
    by (rule sortOutcome_compareLocations_sorted)
  moreover from ys(2) have "mset ys = mset pushed"
    unfolding sortOutcome_def by blast
  ultimately show ?thesis using ys(1) by blast
qed

text \<open>
  C1 claims that the array \<open>filter\<close> returns is always sorted by latitude and, for equal
  latitudes, by longitude. The comparison function never returns \<open>-1\<close> for two points of
  equal latitude: its test \<open>elm2.longitude < elm2.longitude\<close> is always false. For the two
  points (0, 2) and (0, 1) it answers \<open>0\<close> one way round and \<open>1\<close> the other, so it is not
  a consistent comparison function, the order after \<open>sort\<close> is implementation-defined,
  and the array may come back as it was pushed: (0, 2) before (0, 1).
\<close>

theorem filter_may_return_unsorted:
  "GeographicalFilter
     [\<lparr>latitude = 0, longitude = 2, measure' = 1\<rparr>, \<lparr>latitude = 0, longitude = 1, measure' = 1\<rparr>]
     ''ARRAY'' =
     Inr \<lparr>data' = ArrayData
        [\<lparr>latitude = 0, longitude = 2, measure' = 1\<rparr>, \<lparr>latitude = 0, longitude = 1, measure' = 1\<rparr>],
        dataStructure' = ''ARRAY''\<rparr> \<and>
   compareLocations \<lparr>latitude = 0, longitude = 1, measure' = 1\<rparr>
     \<lparr>latitude = 0, longitude = 2, measure' = 1\<rparr> = 0 \<and>
   compareLocations \<lparr>latitude = 0, longitude = 2, measure' = 1\<rparr>
     \<lparr>latitude = 0, longitude = 1, measure' = 1\<rparr> = 1 \<and>
   filter_returns \<lparr>data' = ArrayData
        [\<lparr>latitude = 0, longitude = 2, measure' = 1\<rparr>, \<lparr>latitude = 0, longitude = 1, measure' = 1\<rparr>],
        dataStructure' = ''ARRAY''\<rparr>
     \<lparr>minLatitude = -1, maxLatitude = 1, minLongitude = 0, maxLongitude = 3\<rparr>
     (Inr [\<lparr>latitude = 0, longitude = 2, measure' = 1\<rparr>,
           \<lparr>latitude = 0, longitude = 1, measure' = 1\<rparr>]) \<and>
   \<not> sortedByLatitudeThenLongitude
     [\<lparr>latitude = 0, longitude = 2, measure' = 1\<rparr>, \<lparr>latitude = 0, longitude = 1, measure' = 1\<rparr>]"
proof -
  let ?p1 = "\<lparr>latitude = 0, longitude = 1, measure' = 1 :: rat\<rparr>"
  let ?p2 = "\<lparr>latitude = 0, longitude = 2, measure' = 1 :: rat\<rparr>"
  let ?s = "\<lparr>minLatitude = -1, maxLatitude = 1, minLongitude = 0, maxLongitude = 3 :: rat\<rparr>"
  have c: "compareLocations ?p1 ?p2 = 0" "compareLocations ?p2 ?p1 = 1"
    by (simp_all add: compareLocations_def)
  have a: "array [?p2, ?p1] ?s = [?p2, ?p1]"
    by code_simp
  have "\<not> consistentComparator compareLocations [?p2, ?p1]"
    by (simp add: compareLocations_consistent_iff)
  then have "sortOutcome compareLocations [?p2, ?p1] [?p2, ?p1]"
    by (simp add: sortOutcome_def)
  then have f: "filter_returns \<lparr>data' = ArrayData [?p2, ?p1], dataStructure' = ''ARRAY''\<rparr> ?s
      (Inr [?p2, ?p1])"
    by (simp add: filter_returns_def queryResult_def a)
  have n: "\<not> sortedByLatitudeThenLongitude [?p2, ?p1]"
    by (simp add: sortedByLatitudeThenLongitude_def)
  have g: "GeographicalFilter [?p2, ?p1] ''ARRAY'' =
      Inr \<lparr>data' = ArrayData [?p2, ?p1], dataStructure' = ''ARRAY''\<rparr>"
    by (simp add: GeographicalFilter_def)
  from c f n g show ?thesis by blast
qed

section \<open>Construction of the filter\<close>



text \<open>
  The mode check is the only place where the constructor throws the \<open>ArgumentError\<close>.
  Apart from it, \<open>createGrid\<close> pushes into \<open>data[latitude][longitude]\<close> without a guard: a
  point outside the table, which the array accepts, makes it read a missing cell.
\<close>

lemma createGrid_outside_the_table:
  "GeographicalFilter [\<lparr>latitude = 0, longitude = 200, measure' = 1\<rparr>] ''GRID'' = Inl TypeError \<and>
   GeographicalFilter [\<lparr>latitude = 0, longitude = 200, measure' = 1\<rparr>] ''ARRAY'' =
     Inr \<lparr>data' = ArrayData [\<lparr>latitude = 0, longitude = 200, measure' = 1\<rparr>],
          dataStructure' = ''ARRAY''\<rparr>"
  by (simp add: GeographicalFilter_def createGrid_eq inGrid_def)

section \<open>The wrap amounts and the scan bounds\<close>




section \<open>The gradient\<close>

lemma update_append_new: "k \<notin> fst ` set al \<Longrightarrow> AList.update k v al = al @ [(k, v)]"
  by (induction al) auto

lemma fold_update_enumerate:
  assumes "inj key"
  shows "\<forall>p\<in>set g. \<exists>j<n. fst p = key j \<Longrightarrow>
     fold (\<lambda>(i, c). AList.update (key i) c) (enumerate n xs) g =
       g @ map (\<lambda>(i, c). (key i, c)) (enumerate n xs)"
proof (induction xs arbitrary: n g)
  case Nil
  show ?case by simp
next
  case (Cons x xs)
  have new: "key n \<notin> fst ` set g"
  proof
    assume "key n \<in> fst ` set g"
    then obtain p where "p \<in> set g" "fst p = key n" by auto
    with Cons.prems obtain j where "j < n" "key n = key j" by fastforce
    with assms show False by (auto dest: injD)
  qed
  have "\<forall>p\<in>set (g @ [(key n, x)]). \<exists>j<Suc n. fst p = key j"
    using Cons.prems by (auto intro: less_SucI)
  from Cons.IH [OF this] show ?case
    by (simp add: update_append_new [OF new])
qed

lemma inj_Stop_fraction: "0 < k \<Longrightarrow> inj (\<lambda>i. Stop (of_nat i / of_nat k))"
  by (rule injI) simp

lemma continuousStops_eq: "continuousStops scale [] = continuousTable scale"
proof (cases "scale = []")
  case True
  then show ?thesis by (simp add: continuousStops_def continuousTable_def)
next
  case False
  then have k: "0 < length scale" by simp
  have "continuousStops scale [] =
      map (\<lambda>(i, c). (Stop (of_nat i / of_nat (length scale)), c)) (enumerate 0 scale)"
    unfolding continuousStops_def
    using fold_update_enumerate [OF inj_Stop_fraction [OF k], of "[]" 0 scale] by simp
  also have "\<dots> = continuousTable scale"
    unfolding continuousTable_def
    by (rule nth_equalityI) (simp_all add: nth_enumerate_eq)
  finally show ?thesis .
qed

lemma continuousTable_keys:
  "fst ` set (continuousTable scale) =
     {Stop (of_nat i / of_nat (length scale)) | i. i < length scale}"
proof -
  have "fst ` set (continuousTable scale) =
      (\<lambda>i. Stop (of_nat i / of_nat (length scale))) ` {0..<length scale}"
    by (simp add: continuousTable_def image_image)
  then show ?thesis by auto
qed

lemma continuousTable_lookup:
  assumes "i < length scale"
  shows "map_of (continuousTable scale) (Stop (of_nat i / of_nat (length scale))) = Some (scale ! i)"
proof -
  from assms have k: "0 < length scale" by auto
  have "distinct (map fst (continuousTable scale))"
    using inj_Stop_fraction [OF k]
    by (simp add: continuousTable_def distinct_map comp_def inj_on_def)
  moreover have "(Stop (of_nat i / of_nat (length scale)), scale ! i) \<in> set (continuousTable scale)"
    using assms by (auto simp: continuousTable_def)
  ultimately show ?thesis by (rule map_of_is_SomeI)
qed

text \<open>
  C8. With the interval type CONTINUOUS, \<open>setGradient\<close> has exactly one outcome, which
  is no error: the gradient becomes the table of the scale, whose stops are exactly
  \<open>0, 1/k, ..., (k-1)/k\<close> for a scale of length \<open>k\<close>, the stop \<open>i/k\<close> mapped to the \<open>i\<close>-th
  colour. The table is the same whatever array is passed (or none), the array is left
  as it is, and building again on the resulting layer gives the same table.
\<close>

theorem continuous_gradient:
  assumes "intervalType' this = CONTINUOUS"
  shows "(setGradient_returns this data out \<longleftrightarrow>
            out = (data, Inr (this\<lparr>gradient' := continuousTable (scale' this)\<rparr>))) \<and>
         fst ` set (continuousTable (scale' this)) =
           {Stop (of_nat i / of_nat (length (scale' this))) | i. i < length (scale' this)} \<and>
         (\<forall>i<length (scale' this).
            map_of (continuousTable (scale' this))
              (Stop (of_nat i / of_nat (length (scale' this)))) = Some (scale' this ! i)) \<and>
         (setGradient_returns (this\<lparr>gradient' := continuousTable (scale' this)\<rparr>) data2 out2 \<longleftrightarrow>
            out2 = (data2, Inr (this\<lparr>gradient' := continuousTable (scale' this)\<rparr>)))"
  using assms
  by (simp add: setGradient_returns_def continuousStops_eq continuousTable_keys continuousTable_lookup)

theorem continuous_gradient_witness:
  "intervalType' exampleLayer = CONTINUOUS \<and>
   setGradient_returns exampleLayer (Some locationsToUseForTest)
     (Some locationsToUseForTest,
      Inr (exampleLayer\<lparr>gradient' :=
        [(Stop 0, ''blue''), (Stop (1 / 5), ''cyan''), (Stop (2 / 5), ''lime''),
         (Stop (3 / 5), ''yellow''), (Stop (4 / 5), ''red'')]\<rparr>)) \<and>
   setGradient_returns exampleLayer None
     (None,
      Inr (exampleLayer\<lparr>gradient' :=
        [(Stop 0, ''blue''), (Stop (1 / 5), ''cyan''), (Stop (2 / 5), ''lime''),
         (Stop (3 / 5), ''yellow''), (Stop (4 / 5), ''red'')]\<rparr>))"
proof -
  have c: "intervalType' exampleLayer = CONTINUOUS"
    by (simp add: exampleLayer_def)
  have t: "continuousTable (scale' exampleLayer) =
      [(Stop 0, ''blue''), (Stop (1 / 5), ''cyan''), (Stop (2 / 5), ''lime''),
         (Stop (3 / 5), ''yellow''), (Stop (4 / 5), ''red'')]"
    by (simp add: continuousTable_def exampleLayer_def upt_rec)
  from continuous_gradient [OF c, of "Some locationsToUseForTest"]
    continuous_gradient [OF c, of None] c
  show ?thesis unfolding t by simp
qed


lemma sortOutcome_Nil: "sortOutcome comparefn [] ys \<longleftrightarrow> ys = []"
  by (auto simp: sortOutcome_def)

lemma compareMeasures_consistent: "consistentComparator compareMeasures xs"
  by (rule consistent_by_key [where key = measure']) (simp add: compareMeasures_def)

lemma compareMeasures_less: "compareMeasures b a < 0 \<longleftrightarrow> measure' b < measure' a"
  by (simp add: compareMeasures_def)

lemma sortOutcome_compareMeasures:
  "sortOutcome compareMeasures xs ys \<longleftrightarrow>
     mset ys = mset xs \<and> sorted_wrt (\<lambda>a b. measure' a \<le> measure' b) ys"
  by (simp add: sortOutcome_def compareMeasures_consistent compareMeasures_less not_less)

lemma sortOutcome_compareMeasures_exists:
  "sortOutcome compareMeasures xs (sort_key measure' xs)"
proof -
  have "sorted (map measure' (sort_key measure' xs))"
    by simp
  then show ?thesis
    by (simp add: sortOutcome_compareMeasures sorted_map)
qed

lemma setGradient_quantiles:
  assumes "intervalType' this = QUANTILES"
  shows "setGradient_returns this (Some array_before) out \<longleftrightarrow>
     (\<exists>array_after. sortOutcome compareMeasures array_before array_after \<and>
        out = (Some array_after,
          case quantilesGradient (scale' this) array_after of
            Inl e \<Rightarrow> Inl e
          | Inr g \<Rightarrow> Inr (this\<lparr>gradient' := g\<rparr>)))"
  using assms
  by (cases out) (auto simp: setGradient_returns_def split: option.splits)

text \<open>
  The setter of \<open>intervalType\<close> calls \<open>setGradient()\<close> with no array: with QUANTILES that
  call throws, whatever the layer holds.
\<close>

lemma quantiles_without_array:
  assumes "intervalType' this = QUANTILES"
  shows "setGradient_returns this None out \<longleftrightarrow> out = (None, Inl TypeError)"
  using assms by (simp add: setGradient_returns_def)

text \<open>
  With at least one point and fewer points than colours, QUANTILES builds the table of
  CONTINUOUS.
\<close>

lemma quantiles_with_few_points:
  assumes "intervalType' this = QUANTILES" "array_before \<noteq> []"
    "length array_before < length (scale' this)"
  shows "setGradient_returns this (Some array_before) out \<longleftrightarrow>
     (\<exists>array_after. sortOutcome compareMeasures array_before array_after \<and>
        out = (Some array_after, Inr (this\<lparr>gradient' := continuousTable (scale' this)\<rparr>)))"
proof -
  have "quantilesGradient (scale' this) array_after = Inr (continuousTable (scale' this))"
    if "sortOutcome compareMeasures array_before array_after" for array_after
  proof -
    from that have "mset array_after = mset array_before"
      by (simp add: sortOutcome_def)
    then have "length array_after = length array_before"
      by (rule mset_eq_length)
    with assms(2,3) show ?thesis
      by (auto simp: quantilesGradient_def continuousStops_eq)
  qed
  then show ?thesis
    unfolding setGradient_quantiles [OF assms(1)] by auto
qed

lemma quantiles_with_empty_array:
  assumes "intervalType' this = QUANTILES"
  shows "setGradient_returns this (Some []) out \<longleftrightarrow> out = (Some [], Inl TypeError)"
  unfolding setGradient_quantiles [OF assms]
  by (auto simp: sortOutcome_Nil quantilesGradient_def)

text \<open>
  C7 claims that with fewer points than colours the QUANTILES gradient is built without
  failing and equals the CONTINUOUS one. For the empty array and the default scale of
  five colours, \<open>data[data.length - 1].measure\<close> reads a property of \<open>undefined\<close>: the call
  throws a \<open>TypeError\<close> and cannot return the layer with the CONTINUOUS table.
\<close>

theorem quantiles_gradient_of_empty_array_throws:
  "length ([] :: MeasuredLocation list) < length (scale' (exampleLayer\<lparr>intervalType' := QUANTILES\<rparr>)) \<and>
   setGradient_returns (exampleLayer\<lparr>intervalType' := QUANTILES\<rparr>) (Some [])
     (Some [], Inl TypeError) \<and>
   \<not> setGradient_returns (exampleLayer\<lparr>intervalType' := QUANTILES\<rparr>) (Some [])
     (Some [], Inr (exampleLayer\<lparr>intervalType' := QUANTILES,
        gradient' := continuousTable (scale' exampleLayer)\<rparr>))"
proof -
  have q: "intervalType' (exampleLayer\<lparr>intervalType' := QUANTILES\<rparr>) = QUANTILES"
    by simp
  show ?thesis
    unfolding quantiles_with_empty_array [OF q] by (simp add: exampleLayer_def)
qed

text \<open>
  C10. When the interval type is QUANTILES and an array is passed, \<open>setGradient\<close> leaves
  the caller's array sorted ascending by measure: whatever the call returns or throws,
  the array afterwards is a permutation of the array before, so every point is still
  there with its latitude, longitude and measure, and it is in ascending order of
  measure; an array that was not in that order has been reordered. The call always has
  an outcome.
\<close>

theorem setGradient_sorts_the_callers_array:
  assumes "intervalType' this = QUANTILES"
  shows "(\<exists>out. setGradient_returns this (Some array_before) out) \<and>
    (\<forall>array_after result.
       setGradient_returns this (Some array_before) (array_after, result) \<longrightarrow>
       (\<exists>sorted_array. array_after = Some sorted_array \<and>
          mset sorted_array = mset array_before \<and>
          sorted_wrt (\<lambda>a b. measure' a \<le> measure' b) sorted_array \<and>
          (\<not> sorted_wrt (\<lambda>a b. measure' a \<le> measure' b) array_before \<longrightarrow>
             sorted_array \<noteq> array_before)))"
proof -
  have "\<exists>out. setGradient_returns this (Some array_before) out"
    unfolding setGradient_quantiles [OF assms]
    using sortOutcome_compareMeasures_exists [of array_before] by blast
  moreover have "\<exists>sorted_array. array_after = Some sorted_array \<and>
          mset sorted_array = mset array_before \<and>
          sorted_wrt (\<lambda>a b. measure' a \<le> measure' b) sorted_array \<and>
          (\<not> sorted_wrt (\<lambda>a b. measure' a \<le> measure' b) array_before \<longrightarrow>
             sorted_array \<noteq> array_before)"
    if "setGradient_returns this (Some array_before) (array_after, result)"
    for array_after result
    using that unfolding setGradient_quantiles [OF assms] sortOutcome_compareMeasures
    by auto
  ultimately show ?thesis by blast
qed

theorem setGradient_sorts_the_callers_array_witness:
  "intervalType' (exampleLayer\<lparr>intervalType' := QUANTILES\<rparr>) = QUANTILES \<and>
   setGradient_returns (exampleLayer\<lparr>intervalType' := QUANTILES\<rparr>)
     (Some [\<lparr>latitude = 1, longitude = 2, measure' = 30\<rparr>,
            \<lparr>latitude = 3, longitude = 4, measure' = 10\<rparr>,
            \<lparr>latitude = 5, longitude = 6, measure' = 20\<rparr>])
     (Some [\<lparr>latitude = 3, longitude = 4, measure' = 10\<rparr>,
            \<lparr>latitude = 5, longitude = 6, measure' = 20\<rparr>,
            \<lparr>latitude = 1, longitude = 2, measure' = 30\<rparr>],
      Inr (exampleLayer\<lparr>intervalType' := QUANTILES,
        gradient' := continuousTable (scale' exampleLayer)\<rparr>)) \<and>
   mset [\<lparr>latitude = 3, longitude = 4, measure' = 10\<rparr>,
         \<lparr>latitude = 5, longitude = 6, measure' = 20\<rparr>,
         \<lparr>latitude = 1, longitude = 2, measure' = 30 :: rat\<rparr>] =
   mset [\<lparr>latitude = 1, longitude = 2, measure' = 30\<rparr>,
         \<lparr>latitude = 3, longitude = 4, measure' = 10\<rparr>,
         \<lparr>latitude = 5, longitude = 6, measure' = 20\<rparr>]"
proof -
  let ?a = "\<lparr>latitude = 3, longitude = 4, measure' = 10 :: rat\<rparr>"
  let ?b = "\<lparr>latitude = 5, longitude = 6, measure' = 20 :: rat\<rparr>"
  let ?c = "\<lparr>latitude = 1, longitude = 2, measure' = 30 :: rat\<rparr>"
  let ?layer = "exampleLayer\<lparr>intervalType' := QUANTILES\<rparr>"
  have q: "intervalType' ?layer = QUANTILES"
    by simp
  have o: "sortOutcome compareMeasures [?c, ?a, ?b] [?a, ?b, ?c]"
    by (simp add: sortOutcome_compareMeasures)
  have few: "[?c, ?a, ?b] \<noteq> []" "length [?c, ?a, ?b] < length (scale' ?layer)"
    by (simp_all add: exampleLayer_def)
  have r: "setGradient_returns ?layer (Some [?c, ?a, ?b])
      (Some [?a, ?b, ?c], Inr (?layer\<lparr>gradient' := continuousTable (scale' ?layer)\<rparr>))"
    using o by (simp add: quantiles_with_few_points [OF q few])
  from setGradient_sorts_the_callers_array [OF q, of "[?c, ?a, ?b]", THEN conjunct2, rule_format, OF r]
  have "mset [?a, ?b, ?c] = mset [?c, ?a, ?b]"
    by auto
  with q r show ?thesis by simp
qed


text \<open>
  C9. For every tile sector the extended sector grows the sector on each side by
  \<open>extensionFactor * (maxLat - minLat)\<close> in latitude and by
  \<open>extensionFactor * (maxLon - minLon)\<close> in longitude, with the extension factor \<open>1\<close>: the
  centre stays where it was. That sector is the one handed to the tile renderer, with a
  canvas of \<open>tileWidth + 2 * ceil(extensionFactor * tileWidth)\<close> by
  \<open>tileHeight + 2 * ceil(extensionFactor * tileHeight)\<close> pixels.
\<close>

theorem extended_sector_and_canvas:
  "extensionFactor (calculateExtendedSector s) = 1 \<and>
   sector' (calculateExtendedSector s) =
     \<lparr>minLatitude = minLatitude s -
        extensionFactor (calculateExtendedSector s) * (maxLatitude s - minLatitude s),
      maxLatitude = maxLatitude s +
        extensionFactor (calculateExtendedSector s) * (maxLatitude s - minLatitude s),
      minLongitude = minLongitude s -
        extensionFactor (calculateExtendedSector s) * (maxLongitude s - minLongitude s),
      maxLongitude = maxLongitude s +
        extensionFactor (calculateExtendedSector s) * (maxLongitude s - minLongitude s)\<rparr> \<and>
   minLatitude (sector' (calculateExtendedSector s)) + maxLatitude (sector' (calculateExtendedSector s)) =
     minLatitude s + maxLatitude s \<and>
   minLongitude (sector' (calculateExtendedSector s)) + maxLongitude (sector' (calculateExtendedSector s)) =
     minLongitude s + maxLongitude s \<and>
   options_sector (createHeatMapTile_options this s) = sector' (calculateExtendedSector s) \<and>
   options_width (createHeatMapTile_options this s) =
     tileWidth this + 2 * of_int \<lceil>extensionFactor (calculateExtendedSector s) * tileWidth this\<rceil> \<and>
   options_height (createHeatMapTile_options this s) =
     tileHeight this + 2 * of_int \<lceil>extensionFactor (calculateExtendedSector s) * tileHeight this\<rceil>"
  by (simp add: calculateExtendedSector_def createHeatMapTile_options_def Let_def)

theorem extended_sector_and_canvas_example:
  "sector' (calculateExtendedSector
      \<lparr>minLatitude = 0, maxLatitude = 45, minLongitude = -180, maxLongitude = -135\<rparr>) =
     \<lparr>minLatitude = -45, maxLatitude = 90, minLongitude = -225, maxLongitude = -90\<rparr> \<and>
   options_width (createHeatMapTile_options exampleLayer
      \<lparr>minLatitude = 0, maxLatitude = 45, minLongitude = -180, maxLongitude = -135\<rparr>) = 1536 \<and>
   options_height (createHeatMapTile_options exampleLayer
      \<lparr>minLatitude = 0, maxLatitude = 45, minLongitude = -180, maxLongitude = -135\<rparr>) = 1536"
  using extended_sector_and_canvas
    [of "\<lparr>minLatitude = 0, maxLatitude = 45, minLongitude = -180, maxLongitude = -135\<rparr>" exampleLayer]
  by (simp add: exampleLayer_def)

end
